theory Spec2Isabelle
  imports Complex_Main "HOL-Library.AList"
begin

section \<open>Python values\<close>

text \<open>
  The agent (\<^verbatim>\<open>backend/app/agent/kitchen_agent.py\<close>) works on plain Python dicts.
  A key of a dict may be missing, and a key that is there may hold \<^verbatim>\<open>None\<close>; the two
  are different for \<^verbatim>\<open>dict.get(key, default)\<close>, which returns the default only for a
  missing key. A dict entry is therefore a \<open>'a key\<close>: \<open>None\<close> is "no such key" and
  \<open>Some v\<close> is "the key holds v". A value the type hints call \<^verbatim>\<open>Optional[T]\<close> is a
  \<open>T option\<close>, with \<open>None\<close> for Python's \<^verbatim>\<open>None\<close>.
\<close>

datatype pyerr =
  TypeError | AttributeError | KeyError | IndexError | OverflowError | ServiceError

type_synonym 'a key = "'a option"

text \<open>\<^verbatim>\<open>d.get(k, default)\<close>\<close>

definition get_or :: "'a key \<Rightarrow> 'a \<Rightarrow> 'a" where
  "get_or k d = (case k of None \<Rightarrow> d | Some v \<Rightarrow> v)"

text \<open>\<^verbatim>\<open>d.get(k)\<close> for an \<^verbatim>\<open>Optional\<close> entry: a missing key reads as \<^verbatim>\<open>None\<close>.\<close>

definition get_none :: "'a option key \<Rightarrow> 'a option" where
  "get_none k = (case k of None \<Rightarrow> None | Some v \<Rightarrow> v)"

text \<open>
  A number that comes out of JSON is a Python \<^verbatim>\<open>int\<close> or a Python \<^verbatim>\<open>float\<close>: the
  text \<^verbatim>\<open>3\<close> decodes to the int and \<^verbatim>\<open>3.0\<close> to the float. The two are equal for
  \<^verbatim>\<open>==\<close> and print differently, so a number keeps its type. A float is the rational
  number it stands for (see the section on floats).
\<close>

datatype number = IntNum int | FloatNum rat

text \<open>
  Truth value testing: \<^verbatim>\<open>None\<close> is false, a number is false when it is zero, a string,
  a list and a dict are false when they are empty.
\<close>

definition truthy_num :: "number option \<Rightarrow> bool" where
  "truthy_num v =
     (case v of None \<Rightarrow> False | Some (IntNum n) \<Rightarrow> n \<noteq> 0 | Some (FloatNum x) \<Rightarrow> x \<noteq> 0)"

definition truthy_seq :: "'a list option \<Rightarrow> bool" where
  "truthy_seq v = (case v of None \<Rightarrow> False | Some xs \<Rightarrow> xs \<noteq> [])"

definition truthy_bool :: "bool option \<Rightarrow> bool" where
  "truthy_bool v = (case v of None \<Rightarrow> False | Some b \<Rightarrow> b)"

subsection \<open>Text\<close>

text \<open>
  A Python string is modelled by its UTF-8 bytes. The letters of the Spanish texts that
  are not ASCII are written as their two bytes.
\<close>

definition nl :: string where "nl = [CHR 0x0A]"
definition a_acute :: string where "a_acute = [CHR 0xC3, CHR 0xA1]"
definition e_acute :: string where "e_acute = [CHR 0xC3, CHR 0xA9]"
definition i_acute :: string where "i_acute = [CHR 0xC3, CHR 0xAD]"
definition o_acute :: string where "o_acute = [CHR 0xC3, CHR 0xB3]"
definition n_tilde :: string where "n_tilde = [CHR 0xC3, CHR 0xB1]"
definition inv_question :: string where "inv_question = [CHR 0xC2, CHR 0xBF]"
definition inv_exclam :: string where "inv_exclam = [CHR 0xC2, CHR 0xA1]"
definition degree_sign :: string where "degree_sign = [CHR 0xC2, CHR 0xB0]"

text \<open>\<^verbatim>\<open>sep.join(xs)\<close>\<close>

fun join :: "string \<Rightarrow> string list \<Rightarrow> string" where
  "join sep [] = []"
| "join sep [x] = x"
| "join sep (x # y # ys) = x @ sep @ join sep (y # ys)"

text \<open>\<^verbatim>\<open>str(n)\<close> of an integer, as an f-string prints it.\<close>

function digits :: "nat \<Rightarrow> string" where
  "digits n =
     (if n < 10 then [''0123456789'' ! n] else digits (n div 10) @ [''0123456789'' ! (n mod 10)])"
  by pat_completeness auto
termination
  by (relation "measure id") auto

declare digits.simps [simp del]

definition str_int :: "int \<Rightarrow> string" where
  "str_int i = (if i < 0 then ''-'' @ digits (nat (- i)) else digits (nat i))"

text \<open>An \<^verbatim>\<open>Optional[str]\<close> inside an f-string: \<^verbatim>\<open>None\<close> prints as the word.\<close>

definition str_opt :: "string option \<Rightarrow> string" where
  "str_opt v = (case v of None \<Rightarrow> ''None'' | Some s \<Rightarrow> s)"

subsection \<open>Floats\<close>

text \<open>
  A finite Python float is the rational number it stands for. Every arithmetic operation
  of IEEE 754 binary64 returns the exact result rounded to the nearest value with a
  53-bit significand, ties to the even one; \<open>to_double\<close> is that rounding (with the
  fixed exponent of the subnormal range below \<open>2 ^ -1022\<close>). A result of magnitude
  \<open>2 ^ 1024\<close> or more is Python's \<^verbatim>\<open>inf\<close>; the only place where the agent can get one, a
  quotient, hands it to \<^verbatim>\<open>int()\<close> at once, which raises \<^verbatim>\<open>OverflowError\<close>. The values
  \<^verbatim>\<open>inf\<close> and \<^verbatim>\<open>nan\<close> as inputs are outside the model.
\<close>

definition pow2 :: "int \<Rightarrow> rat" where
  "pow2 e = (if 0 \<le> e then 2 ^ nat e else 1 / 2 ^ nat (- e))"

function bit_length :: "int \<Rightarrow> int" where
  "bit_length n = (if n \<le> 0 then 0 else 1 + bit_length (n div 2))"
  by pat_completeness auto
termination
  by (relation "measure nat") auto

declare bit_length.simps [simp del]

text \<open>The integer \<open>k\<close> with \<open>2 ^ k \<le> q < 2 ^ (k + 1)\<close>, for \<open>q > 0\<close>.\<close>

definition ilog2 :: "rat \<Rightarrow> int" where
  "ilog2 q = (if 1 \<le> q then bit_length \<lfloor>q\<rfloor> - 1 else - bit_length (\<lceil>1 / q\<rceil> - 1))"

definition round_half_even :: "rat \<Rightarrow> int" where
  "round_half_even q =
     (let f = \<lfloor>q\<rfloor>; d = q - of_int f
      in if d < 1 / 2 then f else if 1 / 2 < d then f + 1 else if even f then f else f + 1)"

definition to_double :: "rat \<Rightarrow> rat" where
  "to_double q =
     (if q = 0 then 0
      else let a = \<bar>q\<bar>;
               e = max (ilog2 a - 52) (- 1074);
               m = round_half_even (a / pow2 e)
           in sgn q * of_int m * pow2 e)"

definition fsub :: "rat \<Rightarrow> rat \<Rightarrow> rat" where
  "fsub x y = to_double (x - y)"

definition fmul :: "rat \<Rightarrow> rat \<Rightarrow> rat" where
  "fmul x y = to_double (x * y)"

definition fdiv :: "rat \<Rightarrow> rat \<Rightarrow> rat" where
  "fdiv x y = to_double (x / y)"

text \<open>\<^verbatim>\<open>float(n)\<close> of an integer, as \<^verbatim>\<open>n * 0.6\<close> converts its left operand.\<close>

definition float_of_int :: "int \<Rightarrow> rat" where
  "float_of_int n = to_double (of_int n)"

text \<open>
  The float that a number contributes to an operation with a float: Python converts an
  int operand with \<^verbatim>\<open>float(n)\<close>, which raises \<^verbatim>\<open>OverflowError\<close> for an int beyond the
  range of the floats.
\<close>

definition float_of_number :: "number \<Rightarrow> pyerr + rat" where
  "float_of_number v =
     (case v of
        FloatNum x \<Rightarrow> Inr x
      | IntNum n \<Rightarrow>
          if 2 ^ 1024 \<le> \<bar>float_of_int n\<bar> then Inl OverflowError else Inr (float_of_int n))"

text \<open>\<^verbatim>\<open>int(x)\<close> of a float: truncation towards zero, \<^verbatim>\<open>OverflowError\<close> on \<^verbatim>\<open>inf\<close>.\<close>

definition py_int :: "rat \<Rightarrow> pyerr + int" where
  "py_int x =
     (if 2 ^ 1024 \<le> \<bar>x\<bar> then Inl OverflowError
      else Inr (if 0 \<le> x then \<lfloor>x\<rfloor> else \<lceil>x\<rceil>))"

text \<open>The literals \<^verbatim>\<open>0.9\<close>, \<^verbatim>\<open>0.6\<close> and \<^verbatim>\<open>0.4\<close>: the doubles nearest to the decimals.\<close>

definition lit_0_9 :: rat where "lit_0_9 = to_double (9 / 10)"
definition lit_0_6 :: rat where "lit_0_6 = to_double (6 / 10)"
definition lit_0_4 :: rat where "lit_0_4 = to_double (4 / 10)"

section \<open>Data model\<close>

text \<open>
  One chat message, \<^verbatim>\<open>{"role": ..., "content": ...}\<close>.
\<close>

record message =
  role :: string
  content :: string

text \<open>The values a metadata dict of an artifact holds.\<close>

datatype pyval = PyNone | PyBool bool | PyInt int | PyFloat rat | PyStr string

definition opt_num :: "number option \<Rightarrow> pyval" where
  "opt_num v =
     (case v of None \<Rightarrow> PyNone | Some (IntNum n) \<Rightarrow> PyInt n | Some (FloatNum x) \<Rightarrow> PyFloat x)"

definition opt_str :: "string option \<Rightarrow> pyval" where
  "opt_str v = (case v of None \<Rightarrow> PyNone | Some x \<Rightarrow> PyStr x)"

record artifact =
  art_type :: string
  title :: string
  art_content :: "string key"
  image_data :: "string key"
  metadata :: "(string \<times> pyval) list"

text \<open>An entry of \<^verbatim>\<open>design_history\<close>: \<^verbatim>\<open>{"version": ..., "params": {...}}\<close>.\<close>

record design_params =
  p_linear_meters :: "number option"
  p_shape :: "string option"
  p_style :: "string option"
  p_materials :: "(string \<times> string) list option"

record history_entry =
  version :: int
  params :: design_params

text \<open>
  \<^verbatim>\<open>class KitchenState(TypedDict)\<close>. Every entry is a \<open>key\<close>, because a state that comes
  back from the cache has only the keys that \<^verbatim>\<open>run\<close> saved, and because the dict a node
  returns is a state with only the keys it changes. A dict \<^verbatim>\<open>Dict[str, str]\<close> is an
  association list in insertion order.
\<close>

record KitchenState =
  messages :: "message list key"
  user_id :: "string key"
  conversation_id :: "string key"
  linear_meters :: "number option key"
  shape :: "string option key"
  style :: "string option key"
  materials :: "(string \<times> string) list option key"
  colors :: "string list option key"
  budget :: "string option key"
  current_image :: "string option key"
  design_version :: "int key"
  design_history :: "history_entry list key"
  action :: "string option key"
  needs_clarification :: "bool key"
  questions :: "string list option key"
  response_text :: "string key"
  artifacts :: "artifact list key"
  error :: "string option key"

text \<open>The empty dict, from which a node builds the dict it returns.\<close>

definition no_update :: KitchenState where
  "no_update =
     \<lparr>messages = None, user_id = None, conversation_id = None, linear_meters = None,
      shape = None, style = None, materials = None, colors = None, budget = None,
      current_image = None, design_version = None, design_history = None, action = None,
      needs_clarification = None, questions = None, response_text = None, artifacts = None,
      error = None\<rparr>"

text \<open>
  The graph runtime writes the dict a node returns into the state: a key that the dict
  has replaces the state's entry, and \<^verbatim>\<open>messages\<close>, declared with \<^verbatim>\<open>operator.add\<close>, is
  appended to.
\<close>

definition put :: "'a key \<Rightarrow> 'a key \<Rightarrow> 'a key" where
  "put old new = (case new of None \<Rightarrow> old | Some v \<Rightarrow> Some v)"

definition apply_update :: "KitchenState \<Rightarrow> KitchenState \<Rightarrow> KitchenState" where
  "apply_update state upd =
     \<lparr>messages = (case messages upd of None \<Rightarrow> messages state
                   | Some ms \<Rightarrow> Some (get_or (messages state) [] @ ms)),
      user_id = put (user_id state) (user_id upd),
      conversation_id = put (conversation_id state) (conversation_id upd),
      linear_meters = put (linear_meters state) (linear_meters upd),
      shape = put (shape state) (shape upd),
      style = put (style state) (style upd),
      materials = put (materials state) (materials upd),
      colors = put (colors state) (colors upd),
      budget = put (budget state) (budget upd),
      current_image = put (current_image state) (current_image upd),
      design_version = put (design_version state) (design_version upd),
      design_history = put (design_history state) (design_history upd),
      action = put (action state) (action upd),
      needs_clarification = put (needs_clarification state) (needs_clarification upd),
      questions = put (questions state) (questions upd),
      response_text = put (response_text state) (response_text upd),
      artifacts = put (artifacts state) (artifacts upd),
      error = put (error state) (error upd)\<rparr>"

section \<open>Collaborators\<close>

text \<open>
  The hosted models are not part of the program. The reasoning model's answer to
  \<^verbatim>\<open>analyze_request\<close>, after JSON decoding, is an \<open>analysis\<close> with the fields of the
  prompt's contract that the agent reads; a call may also raise, which nothing in the
  agent catches. The image calls of \<^verbatim>\<open>tools.py\<close> catch every exception and return one
  of two dicts: \<^verbatim>\<open>{"success": True, "images": [...]}\<close> or
  \<^verbatim>\<open>{"success": False, "images": [], "error": str(e)}\<close>.
\<close>

record analysis_context =
  ctx_linear_meters :: "number option"
  ctx_shape :: "string option"
  ctx_style :: "string option"
  ctx_materials :: "(string \<times> string) list option"
  has_current_design :: bool
  ctx_design_version :: int

record analysis =
  an_action :: "string option key"
  an_linear_meters :: "number option key"
  an_shape :: "string option key"
  an_style :: "string option key"
  an_materials :: "(string \<times> string option) list option key"
  an_colors :: "string list option key"
  an_budget :: "string option key"
  questions_to_ask :: "string list option key"

datatype image_result = ImageSuccess "string list" | ImageFailure string

text \<open>
  What the prompt of \<^verbatim>\<open>generate_kitchen_image\<close> is built from. The prompt is a function
  of these values, so a backend that answers the request answers the prompt.
\<close>

record image_request =
  req_linear_meters :: "number option"
  req_shape :: "string option"
  req_style :: "string option"
  req_materials :: "(string \<times> string) list"
  req_colors :: "string list"

text \<open>
  \<open>float_str\<close> is how Python prints a float in an f-string (\<^verbatim>\<open>repr\<close>), a fixed function
  of the language. \<open>chat_reply history last\<close> is \<^verbatim>\<open>start_chat(history)\<close> followed by
  \<^verbatim>\<open>send_message(last)\<close>.
\<close>

record services =
  analyze_request :: "string \<Rightarrow> analysis_context \<Rightarrow> pyerr + analysis"
  chat_reply :: "message list \<Rightarrow> string \<Rightarrow> pyerr + string"
  generate_image :: "image_request \<Rightarrow> image_result"
  edit_image :: "string \<Rightarrow> string \<Rightarrow> image_result"
  float_str :: "rat \<Rightarrow> string"

text \<open>A number inside an f-string: an int prints its digits, a float its \<^verbatim>\<open>repr\<close>.\<close>

definition num_str :: "services \<Rightarrow> number \<Rightarrow> string" where
  "num_str env v = (case v of IntNum n \<Rightarrow> str_int n | FloatNum x \<Rightarrow> float_str env x)"

section \<open>Technical specifications\<close>

text \<open>
  The first part of \<^verbatim>\<open>_generate_specs\<close> (the module distribution): the list of module
  lines and the two storage counts.
\<close>

definition module_sink :: string where
  "module_sink = ''1x M'' @ o_acute @ ''dulo fregadero (90cm)''"

definition module_cooktop :: string where
  "module_cooktop = ''1x M'' @ o_acute @ ''dulo estufa/parrilla (60cm)''"

definition module_fridge :: string where
  "module_fridge = ''1x M'' @ o_acute @ ''dulo refrigerador (60cm)''"

definition module_storage :: "int \<Rightarrow> string \<Rightarrow> string" where
  "module_storage n width =
     str_int n @ ''x M'' @ o_acute @ ''dulo almacenamiento ('' @ width @ '')''"

definition take_module :: "rat \<Rightarrow> string \<Rightarrow> string list \<times> rat \<Rightarrow> string list \<times> rat" where
  "take_module width name mr =
     (case mr of (modules, remaining) \<Rightarrow>
        if width \<le> remaining then (modules @ [name], fsub remaining width)
        else (modules, remaining))"

definition pack_modules :: "rat \<Rightarrow> pyerr + string list \<times> int \<times> int" where
  "pack_modules meters =
     (case take_module lit_0_6 module_fridge
             (take_module lit_0_6 module_cooktop
               (take_module lit_0_9 module_sink ([], meters))) of
        (modules, remaining) \<Rightarrow>
          (case py_int (fdiv remaining lit_0_6) of
             Inl e \<Rightarrow> Inl e
           | Inr storage_60 \<Rightarrow>
               (case py_int (fdiv (fsub remaining (fmul (float_of_int storage_60) lit_0_6))
                                  lit_0_4) of
                  Inl e \<Rightarrow> Inl e
                | Inr storage_40 \<Rightarrow>
                    Inr (modules
                           @ (if 0 < storage_60 then [module_storage storage_60 ''60cm''] else [])
                           @ (if 0 < storage_40 then [module_storage storage_40 ''40cm''] else []),
                         storage_60, storage_40))))"

definition appliances :: string where
  "appliances = join nl
     [''- Campana extractora'',
      ''- Estufa/Parrilla 4 quemadores'',
      ''- Horno empotrable (opcional)'',
      ''- Refrigerador'',
      ''- Microondas empotrable (opcional)'',
      ''- Lavavajillas (opcional)'']"

definition cost_ranges :: "(string \<times> string) list" where
  "cost_ranges =
     [(''low'', ''$15,000 - $25,000 MXN''),
      (''medium'', ''$25,000 - $45,000 MXN''),
      (''high'', ''$45,000 - $80,000 MXN''),
      (''premium'', ''$80,000 - $150,000+ MXN'')]"

text \<open>The section of the document that reports a cost band.\<close>

definition cost_estimate_section :: "string \<Rightarrow> string list" where
  "cost_estimate_section band =
     [''### Estimaci'' @ o_acute @ ''n de Inversi'' @ o_acute @ ''n'',
      ''Rango aproximado: '' @ band]"

definition specs_note :: string where
  "specs_note =
     ''*Nota: Los precios son aproximados y pueden variar seg'' @ [CHR 0xC3, CHR 0xBA]
       @ ''n proveedor y ubicaci'' @ o_acute @ ''n.*''"

text \<open>
  The lines of the document before the module distribution, with the printed size and
  shape and the three materials, each with its own default; then the lines of the module
  distribution and of the appliances.
\<close>

definition specs_head :: "string \<Rightarrow> string \<Rightarrow> (string \<times> string) list \<Rightarrow> string list" where
  "specs_head meters_text shape_text mats =
     [''## Especificaciones T'' @ e_acute @ ''cnicas'',
      [],
      ''### Dimensiones'',
      ''- **Metros lineales:** '' @ meters_text @ ''m'',
      ''- **Configuraci'' @ o_acute @ ''n:** '' @ shape_text,
      ''- **Altura muebles bajos:** 85 cm'',
      ''- **Altura muebles altos:** 80 cm'',
      ''- **Profundidad muebles bajos:** 60 cm'',
      [],
      ''### Materiales'',
      ''- **Gabinetes:** '' @ get_or (map_of mats ''cabinets'') ''MDF lacado'',
      ''- **Cubierta:** '' @ get_or (map_of mats ''countertop'') ''Cuarzo'',
      ''- **Salpicadero:** '' @ get_or (map_of mats ''backsplash'') ''Azulejo'',
      ''- **Herrajes:** Cierre suave, bisagras de 110'' @ degree_sign,
      []]"

definition specs_modules :: "string list \<Rightarrow> string list" where
  "specs_modules modules =
     [''### Distribuci'' @ o_acute @ ''n de M'' @ o_acute @ ''dulos'',
      join nl (map (\<lambda>m. ''- '' @ m) modules),
      [],
      ''### Electrodom'' @ e_acute @ ''sticos Sugeridos'',
      appliances,
      []]"

text \<open>
  \<^verbatim>\<open>_generate_specs(linear_meters, shape, style, materials)\<close>. With \<^verbatim>\<open>None\<close> for the
  size the first comparison raises \<^verbatim>\<open>TypeError\<close>; with \<^verbatim>\<open>None\<close> for the materials
  \<^verbatim>\<open>materials.get\<close> raises \<^verbatim>\<open>AttributeError\<close>. A size that is an int enters the module
  distribution as \<^verbatim>\<open>float(n)\<close>: the comparisons with \<^verbatim>\<open>0.9\<close> and \<^verbatim>\<open>0.6\<close> are by
  value, where an int \<open>n\<close> and \<^verbatim>\<open>float(n)\<close> lie on the same side of each, and the first
  subtraction or division converts it (there is always one: the division by \<^verbatim>\<open>0.6\<close>). The
  document prints the size as it was given. The band is looked up under the constant
  key \<^verbatim>\<open>'medium'\<close>. The document is its lines joined by newlines: the head
  (dimensions and materials), the module distribution and the appliances, the cost
  estimate, the note.
\<close>

definition generate_specs ::
  "services \<Rightarrow> number option \<Rightarrow> string option \<Rightarrow> string option
     \<Rightarrow> (string \<times> string) list option \<Rightarrow> pyerr + string" where
  "generate_specs env meters shp sty mats =
     (case meters of
        None \<Rightarrow> Inl TypeError
      | Some lm \<Rightarrow>
          (case float_of_number lm of
             Inl e \<Rightarrow> Inl e
           | Inr x \<Rightarrow>
               (case pack_modules x of
                  Inl e \<Rightarrow> Inl e
                | Inr (modules, storage_60, storage_40) \<Rightarrow>
                    (case mats of
                       None \<Rightarrow> Inl AttributeError
                     | Some ms \<Rightarrow>
                         Inr (join nl
                           (specs_head (num_str env lm) (str_opt shp) ms
                            @ specs_modules modules
                            @ cost_estimate_section
                                (get_or (map_of cost_ranges ''medium'')
                                   ''$30,000 - $50,000 MXN'')
                            @ [[], specs_note]))))))"

section \<open>Image tools\<close>

text \<open>
  \<^verbatim>\<open>generate_kitchen_image\<close> of \<^verbatim>\<open>tools.py\<close>: \<^verbatim>\<open>materials or {...}\<close> and
  \<^verbatim>\<open>colors or [...]\<close> replace a value that is \<^verbatim>\<open>None\<close> or empty; the prompt then indexes
  the three material keys, which raises \<^verbatim>\<open>KeyError\<close> for a dict that lacks one, outside
  every \<^verbatim>\<open>try\<close>.
\<close>

definition tool_default_materials :: "(string \<times> string) list" where
  "tool_default_materials =
     [(''cabinets'', ''white lacquered MDF''), (''countertop'', ''quartz''),
      (''backsplash'', ''subway tiles'')]"

definition tool_default_colors :: "string list" where
  "tool_default_colors = [''white'', ''gray'', ''wood tones'']"

definition generate_kitchen_image ::
  "services \<Rightarrow> number option \<Rightarrow> string option \<Rightarrow> string option
     \<Rightarrow> (string \<times> string) list option \<Rightarrow> string list option \<Rightarrow> pyerr + image_result" where
  "generate_kitchen_image env meters shp sty mats cols =
     (let ms = (if truthy_seq mats then get_or mats [] else tool_default_materials);
          cs = (if truthy_seq cols then get_or cols [] else tool_default_colors)
      in if map_of ms ''cabinets'' = None \<or> map_of ms ''countertop'' = None
            \<or> map_of ms ''backsplash'' = None
         then Inl KeyError
         else Inr (generate_image env
                \<lparr>req_linear_meters = meters, req_shape = shp, req_style = sty,
                 req_materials = ms, req_colors = cs\<rparr>))"

text \<open>\<^verbatim>\<open>edit_kitchen_image\<close>: the whole of \<^verbatim>\<open>edit_image\<close> runs inside a \<^verbatim>\<open>try\<close>.\<close>

definition edit_kitchen_image :: "services \<Rightarrow> string \<Rightarrow> string \<Rightarrow> image_result" where
  "edit_kitchen_image env base_image edit_instructions =
     edit_image env base_image edit_instructions"

section \<open>The nodes of the graph\<close>

subsection \<open>\<^verbatim>\<open>_route_action\<close>\<close>

definition route_action :: "KitchenState \<Rightarrow> string" where
  "route_action state =
     (if truthy_bool (needs_clarification state) then ''clarify''
      else let act = get_or (action state) (Some ''respond'')
           in if act = Some ''generate'' then ''generate''
              else if act = Some ''edit'' then ''edit''
              else ''respond'')"

subsection \<open>\<^verbatim>\<open>_analyze_input\<close>\<close>

definition size_question :: string where
  "size_question =
     inv_question @ ''Cu'' @ a_acute
       @ ''ntos metros lineales tiene disponibles para su cocina?''"

text \<open>\<^verbatim>\<open>{k: v for k, v in analysis["materials"].items() if v}\<close>\<close>

definition truthy_items :: "(string \<times> string option) list \<Rightarrow> (string \<times> string) list" where
  "truthy_items items =
     concat (map (\<lambda>(k, v). case v of None \<Rightarrow> [] | Some s \<Rightarrow> if s = [] then [] else [(k, s)])
                 items)"

text \<open>\<^verbatim>\<open>d.update(other)\<close>: a key of \<open>d\<close> keeps its place, a new key goes to the end.\<close>

definition dict_update ::
  "(string \<times> string) list \<Rightarrow> (string \<times> string) list \<Rightarrow> (string \<times> string) list" where
  "dict_update d other = foldl (\<lambda>acc (k, v). AList.update k v acc) d other"

text \<open>
  The merge of the extracted parameters into \<^verbatim>\<open>updates\<close>, in the order of the source:
  size, shape and style; then the materials, where \<^verbatim>\<open>update\<close> on a \<^verbatim>\<open>None\<close> that the
  state holds raises \<^verbatim>\<open>AttributeError\<close>; then colors and budget. Each \<^verbatim>\<open>if\<close> tests
  the truth value of the extracted value.
\<close>

definition merge_size_shape_style :: "analysis \<Rightarrow> KitchenState \<Rightarrow> KitchenState" where
  "merge_size_shape_style an updates =
     (let u1 = (if truthy_num (get_none (an_linear_meters an))
                then updates\<lparr>linear_meters := Some (get_none (an_linear_meters an))\<rparr>
                else updates);
          u2 = (if truthy_seq (get_none (an_shape an))
                then u1\<lparr>shape := Some (get_none (an_shape an))\<rparr> else u1)
      in if truthy_seq (get_none (an_style an))
         then u2\<lparr>style := Some (get_none (an_style an))\<rparr> else u2)"

definition merge_materials :: "KitchenState \<Rightarrow> analysis \<Rightarrow> KitchenState \<Rightarrow> pyerr + KitchenState" where
  "merge_materials state an updates =
     (if truthy_seq (get_none (an_materials an))
      then (case get_or (materials state) (Some []) of
              None \<Rightarrow> Inl AttributeError
            | Some current_materials \<Rightarrow>
                Inr (updates\<lparr>materials :=
                       Some (Some (dict_update current_materials
                         (truthy_items (get_or (get_none (an_materials an)) []))))\<rparr>))
      else Inr updates)"

definition merge_colors_budget :: "analysis \<Rightarrow> KitchenState \<Rightarrow> KitchenState" where
  "merge_colors_budget an updates =
     (let u5 = (if truthy_seq (get_none (an_colors an))
                then updates\<lparr>colors := Some (get_none (an_colors an))\<rparr> else updates)
      in if truthy_seq (get_none (an_budget an))
         then u5\<lparr>budget := Some (get_none (an_budget an))\<rparr> else u5)"

definition merge_parameters :: "KitchenState \<Rightarrow> analysis \<Rightarrow> KitchenState \<Rightarrow> pyerr + KitchenState" where
  "merge_parameters state an updates =
     (case merge_materials state an (merge_size_shape_style an updates) of
        Inl e \<Rightarrow> Inl e
      | Inr u4 \<Rightarrow> Inr (merge_colors_budget an u4))"

text \<open>The first \<^verbatim>\<open>updates\<close> dict: action, flag and questions from the analysis.\<close>

definition analysis_updates :: "analysis \<Rightarrow> KitchenState" where
  "analysis_updates an =
     no_update
       \<lparr>action := Some (get_or (an_action an) (Some ''respond'')),
        needs_clarification := Some (get_none (an_action an) = Some ''clarification''),
        questions := Some (get_or (questions_to_ask an) (Some []))\<rparr>"

text \<open>
  The last step, "check if we have enough info to generate": a generate action with no
  size in \<^verbatim>\<open>updates\<close> and none in the state becomes a clarification with one question.
\<close>

definition require_size :: "KitchenState \<Rightarrow> KitchenState \<Rightarrow> KitchenState" where
  "require_size state updates =
     (if get_none (action updates) = Some ''generate''
         \<and> \<not> truthy_num (get_none (linear_meters updates))
         \<and> \<not> truthy_num (get_none (linear_meters state))
      then updates\<lparr>needs_clarification := Some True,
                   questions := Some (Some [size_question])\<rparr>
      else updates)"

definition analyze_input :: "services \<Rightarrow> KitchenState \<Rightarrow> pyerr + KitchenState" where
  "analyze_input env state =
     (let msgs = get_or (messages state) []
      in if msgs = [] then Inr (no_update\<lparr>error := Some (Some ''No message provided'')\<rparr>)
         else
           (case analyze_request env (content (last msgs))
                   \<lparr>ctx_linear_meters = get_none (linear_meters state),
                    ctx_shape = get_none (shape state),
                    ctx_style = get_none (style state),
                    ctx_materials = get_none (materials state),
                    has_current_design = (get_none (current_image state) \<noteq> None),
                    ctx_design_version = get_or (design_version state) 0\<rparr> of
              Inl e \<Rightarrow> Inl e
            | Inr an \<Rightarrow>
                (case merge_parameters state an (analysis_updates an) of
                   Inl e \<Rightarrow> Inl e
                 | Inr updates \<Rightarrow> Inr (require_size state updates))))"

subsection \<open>\<^verbatim>\<open>_ask_clarification\<close>\<close>

definition shape_menu :: string where
  "shape_menu =
     nl @ nl @ ''**Configuraciones disponibles:**'' @ nl
     @ ''- **Lineal (I):** Ideal para espacios estrechos'' @ nl
     @ ''- **En L:** La m'' @ a_acute @ ''s vers'' @ a_acute @ ''til, aprovecha esquinas'' @ nl
     @ ''- **En U:** M'' @ a_acute @ ''ximo almacenamiento, espacios amplios'' @ nl
     @ ''- **Paralela:** Perfecta para cocinas tipo pasillo'' @ nl"

definition contextual_questions :: "KitchenState \<Rightarrow> string list" where
  "contextual_questions state =
     (let missing =
            (if \<not> truthy_num (get_none (linear_meters state))
             then [''metros lineales disponibles''] else [])
            @ (if \<not> truthy_seq (get_none (shape state))
               then [''configuraci'' @ o_acute @ ''n deseada (L, U, lineal, etc.)''] else [])
            @ (if \<not> truthy_seq (get_none (style state))
               then [''estilo preferido''] else [])
      in if missing \<noteq> []
         then [''Para crear tu dise'' @ n_tilde @ ''o ideal, necesito saber: ''
                 @ join '', '' missing @ ''. '' @ inv_question @ ''Podr'' @ i_acute
                 @ ''as proporcionarme esta informaci'' @ o_acute @ ''n?'']
         else [inv_question @ ''Podr'' @ i_acute @ ''as darme m'' @ a_acute
                 @ ''s detalles sobre lo que te gustar'' @ i_acute @ ''a modificar?''])"

definition ask_clarification :: "KitchenState \<Rightarrow> KitchenState" where
  "ask_clarification state =
     (let qs = (if truthy_seq (get_or (questions state) (Some []))
                then get_or (get_or (questions state) (Some [])) []
                else contextual_questions state);
          text = join nl qs
                 @ (if \<not> truthy_seq (get_none (shape state)) then shape_menu else [])
      in no_update\<lparr>response_text := Some text, artifacts := Some []\<rparr>)"

subsection \<open>\<^verbatim>\<open>_generate_design\<close>\<close>

definition default_materials :: "(string \<times> string) list" where
  "default_materials =
     [(''cabinets'', ''lacquered MDF''), (''countertop'', ''quartz''),
      (''backsplash'', ''ceramic tiles'')]"

definition shape_names :: "(string \<times> string) list" where
  "shape_names =
     [(''I'', ''lineal''), (''L'', ''en L''), (''U'', ''en U''), (''G'', ''en G''),
      (''parallel'', ''paralela'')]"

text \<open>\<^verbatim>\<open>shape_names.get(shape, shape)\<close> inside the f-string.\<close>

definition shape_display :: "string option \<Rightarrow> string" where
  "shape_display shp =
     (case shp of None \<Rightarrow> ''None'' | Some s \<Rightarrow> get_or (map_of shape_names s) s)"

definition generation_failed_text :: "string \<Rightarrow> string" where
  "generation_failed_text err =
     ''Lo siento, hubo un problema al generar la imagen: '' @ err @ ''. '' @ inv_question
       @ ''Podr'' @ i_acute @ ''as intentarlo de nuevo?''"

definition no_image_text :: string where
  "no_image_text = ''No se pudo generar la imagen. Por favor intenta de nuevo.''"

definition design_title :: "int \<Rightarrow> string" where
  "design_title v = ''Dise'' @ n_tilde @ ''o de Cocina v'' @ str_int v"

definition design_text ::
  "int \<Rightarrow> string \<Rightarrow> string \<Rightarrow> string \<Rightarrow> (string \<times> string) list \<Rightarrow> string list \<Rightarrow> string" where
  "design_text new_version style_text shape_text meters_text ms cs =
     join nl
       [''## Dise'' @ n_tilde @ ''o de Cocina - Versi'' @ o_acute @ ''n '' @ str_int new_version,
        [],
        ''He creado un dise'' @ n_tilde @ ''o de cocina **'' @ style_text
          @ ''** con configuraci'' @ o_acute @ ''n **'' @ shape_text @ ''** de **''
          @ meters_text @ '' metros lineales**.'',
        [],
        ''### Caracter'' @ i_acute @ ''sticas principales:'',
        ''- **Gabinetes:** '' @ get_or (map_of ms ''cabinets'') ''MDF lacado'',
        ''- **Cubierta:** '' @ get_or (map_of ms ''countertop'') ''Cuarzo'',
        ''- **Salpicadero:** '' @ get_or (map_of ms ''backsplash'')
                                     (''Azulejo cer'' @ a_acute @ ''mico''),
        ''- **Paleta de colores:** '' @ join '', '' cs,
        [],
        inv_question @ ''Te gustar'' @ i_acute @ ''a hacer alguna modificaci'' @ o_acute
          @ ''n? Puedo ajustar colores, materiales, agregar o quitar elementos, ''
          @ ''cambiar el estilo, etc.'']"

text \<open>
  The defaults of \<^verbatim>\<open>state.get(key, default)\<close> apply to a missing key only. After the
  image call the order of the source is kept: the version, the specifications (which can
  raise), the response text (\<^verbatim>\<open>', '.join(colors)\<close> raises \<^verbatim>\<open>TypeError\<close> for \<^verbatim>\<open>None\<close>), the
  artifacts, the history.
\<close>

definition generate_design :: "services \<Rightarrow> KitchenState \<Rightarrow> pyerr + KitchenState" where
  "generate_design env state =
     (let meters = get_or (linear_meters state) (Some (FloatNum 3));
          shp = get_or (shape state) (Some ''L'');
          sty = get_or (style state) (Some ''modern'');
          mats = get_or (materials state) (Some default_materials);
          cols = get_or (colors state) (Some [''white'', ''gray''])
      in case generate_kitchen_image env meters shp sty mats cols of
           Inl e \<Rightarrow> Inl e
         | Inr (ImageFailure err) \<Rightarrow>
             Inr (no_update\<lparr>response_text := Some (generation_failed_text err),
                            artifacts := Some [],
                            error := Some (Some err)\<rparr>)
         | Inr (ImageSuccess []) \<Rightarrow>
             Inr (no_update\<lparr>response_text := Some no_image_text,
                            artifacts := Some [],
                            error := Some (Some ''No images generated'')\<rparr>)
         | Inr (ImageSuccess (image_base64 # rest)) \<Rightarrow>
             (let new_version = get_or (design_version state) 0 + 1
              in case generate_specs env meters shp sty mats of
                   Inl e \<Rightarrow> Inl e
                 | Inr specs \<Rightarrow>
                     (case cols of
                        None \<Rightarrow> Inl TypeError
                      | Some cs \<Rightarrow>
                          Inr (no_update
                            \<lparr>response_text :=
                               Some (design_text new_version (str_opt sty) (shape_display shp)
                                       (case meters of None \<Rightarrow> ''None''
                                        | Some x \<Rightarrow> num_str env x)
                                       (get_or mats []) cs),
                             artifacts :=
                               Some [\<lparr>art_type = ''image'',
                                      title = design_title new_version,
                                      art_content = None,
                                      image_data = Some image_base64,
                                      metadata =
                                        [(''linear_meters'', opt_num meters),
                                         (''shape'', opt_str shp),
                                         (''style'', opt_str sty),
                                         (''version'', PyInt new_version)]\<rparr>,
                                     \<lparr>art_type = ''specs'',
                                      title = ''Especificaciones T'' @ e_acute @ ''cnicas'',
                                      art_content = Some specs,
                                      image_data = None,
                                      metadata = []\<rparr>],
                             current_image := Some (Some image_base64),
                             design_version := Some new_version,
                             design_history :=
                               Some (get_or (design_history state) []
                                     @ [\<lparr>version = new_version,
                                         params = \<lparr>p_linear_meters = meters, p_shape = shp,
                                                   p_style = sty, p_materials = mats\<rparr>\<rparr>])\<rparr>))))"

subsection \<open>\<^verbatim>\<open>_edit_design\<close>\<close>

definition regenerating_text :: string where
  "regenerating_text = ''Estoy regenerando el dise'' @ n_tilde @ ''o con tus modificaciones...''"

definition edit_text :: "int \<Rightarrow> string" where
  "edit_text new_version =
     join nl
       [''## Dise'' @ n_tilde @ ''o Actualizado - Versi'' @ o_acute @ ''n '' @ str_int new_version,
        [],
        ''He aplicado las modificaciones solicitadas al dise'' @ n_tilde @ ''o. '',
        [],
        inv_question @ ''Qu'' @ e_acute
          @ '' te parece? Puedo seguir ajustando cualquier detalle que necesites.'']"

definition edit_design :: "services \<Rightarrow> KitchenState \<Rightarrow> pyerr + KitchenState" where
  "edit_design env state =
     (case get_none (current_image state) of
        None \<Rightarrow> generate_design env state
      | Some img \<Rightarrow>
          if img = [] then generate_design env state
          else
            (let msgs = get_or (messages state) [];
                 edit_instructions = (if msgs \<noteq> [] then content (last msgs) else [])
             in case edit_kitchen_image env img edit_instructions of
                  ImageFailure err \<Rightarrow>
                    Inr (no_update\<lparr>response_text := Some regenerating_text,
                                   artifacts := Some [],
                                   action := Some (Some ''generate'')\<rparr>)
                | ImageSuccess [] \<Rightarrow> generate_design env state
                | ImageSuccess (image_base64 # rest) \<Rightarrow>
                    (let new_version = get_or (design_version state) 0 + 1
                     in Inr (no_update
                          \<lparr>response_text := Some (edit_text new_version),
                           artifacts :=
                             Some [\<lparr>art_type = ''image'',
                                    title = design_title new_version,
                                    art_content = None,
                                    image_data = Some image_base64,
                                    metadata = [(''version'', PyInt new_version),
                                                (''edit'', PyBool True)]\<rparr>],
                           current_image := Some (Some image_base64),
                           design_version := Some new_version\<rparr>))))"

subsection \<open>\<^verbatim>\<open>_generate_response\<close> and \<^verbatim>\<open>_format_output\<close>\<close>

definition greeting :: string where
  "greeting =
     inv_exclam @ ''Hola! Soy KitchenMaster AI, tu experto en dise'' @ n_tilde
       @ ''o de cocinas integrales. '' @ inv_question @ ''En qu'' @ e_acute
       @ '' puedo ayudarte hoy?''"

definition generate_response :: "services \<Rightarrow> KitchenState \<Rightarrow> pyerr + KitchenState" where
  "generate_response env state =
     (let msgs = get_or (messages state) []
      in if msgs = [] then Inr (no_update\<lparr>response_text := Some greeting\<rparr>)
         else
           (case chat_reply env (butlast msgs) (content (last msgs)) of
              Inl e \<Rightarrow> Inl e
            | Inr response \<Rightarrow>
                Inr (no_update\<lparr>response_text := Some response, artifacts := Some []\<rparr>)))"

definition format_output :: "KitchenState \<Rightarrow> KitchenState" where
  "format_output state =
     no_update\<lparr>response_text := Some (get_or (response_text state) []),
               artifacts := Some (get_or (artifacts state) [])\<rparr>"

section \<open>The graph and the turn\<close>

text \<open>
  \<^verbatim>\<open>_build_graph\<close>: the entry point is \<^verbatim>\<open>analyze\<close>; the conditional edge sends the name
  that \<^verbatim>\<open>_route_action\<close> returns to the node of that name; each of the four nodes has one
  edge, to \<^verbatim>\<open>format_output\<close>, which has one edge, to the end. There is no edge from
  \<^verbatim>\<open>edit\<close> to \<^verbatim>\<open>generate\<close>.
\<close>

definition branch_node :: "services \<Rightarrow> string \<Rightarrow> KitchenState \<Rightarrow> pyerr + KitchenState" where
  "branch_node env name state =
     (if name = ''clarify'' then Inr (ask_clarification state)
      else if name = ''generate'' then generate_design env state
      else if name = ''edit'' then edit_design env state
      else generate_response env state)"

text \<open>
  One invocation of the graph on an input state: the name of the branch that ran and
  the final state, or the exception that ended it. The input state is the state that
  the first node reads, as on a thread for which the checkpointer, which lives in the
  memory of the process, holds nothing; the list of messages, whose reducer is
  \<^verbatim>\<open>operator.add\<close>, is written by no node.
\<close>

definition invoke_graph :: "services \<Rightarrow> KitchenState \<Rightarrow> pyerr + string \<times> KitchenState" where
  "invoke_graph env state =
     (case analyze_input env state of
        Inl e \<Rightarrow> Inl e
      | Inr analyzed \<Rightarrow>
          (let state1 = apply_update state analyzed;
               branch = route_action state1
           in case branch_node env branch state1 of
                Inl e \<Rightarrow> Inl e
              | Inr produced \<Rightarrow>
                  (let state2 = apply_update state1 produced
                   in Inr (branch, apply_update state2 (format_output state2)))))"

text \<open>
  \<^verbatim>\<open>run\<close>: \<^verbatim>\<open>existing_state or {...}\<close> takes the fresh state for \<^verbatim>\<open>None\<close> and for the empty
  dict; the user's message is appended; the result has the response text, the artifacts
  and the ten entries of the state that are saved for the next turn. Seven of them are
  \<^verbatim>\<open>Optional\<close> and read with \<^verbatim>\<open>result.get\<close>; the version, the history and the messages
  are copied as they are.
\<close>

definition initial_state :: "string \<Rightarrow> string \<Rightarrow> KitchenState" where
  "initial_state uid cid =
     \<lparr>messages = Some [], user_id = Some uid, conversation_id = Some cid,
      linear_meters = Some None, shape = Some None, style = Some None,
      materials = Some (Some []), colors = Some (Some []), budget = Some None,
      current_image = Some None, design_version = Some 0, design_history = Some [],
      action = Some None, needs_clarification = Some False, questions = Some (Some []),
      response_text = Some [], artifacts = Some [], error = Some None\<rparr>"

record run_result =
  out_response_text :: string
  out_artifacts :: "artifact list"
  out_state :: KitchenState

definition run ::
  "services \<Rightarrow> string \<Rightarrow> string \<Rightarrow> string \<Rightarrow> KitchenState option \<Rightarrow> pyerr + run_result" where
  "run env user_message uid cid existing_state =
     (let state0 = (case existing_state of
                      None \<Rightarrow> initial_state uid cid
                    | Some st \<Rightarrow> if st = no_update then initial_state uid cid else st);
          state = state0\<lparr>messages :=
                    Some (get_or (messages state0) []
                          @ [\<lparr>role = ''user'', content = user_message\<rparr>])\<rparr>
      in case invoke_graph env state of
           Inl e \<Rightarrow> Inl e
         | Inr (branch, result) \<Rightarrow>
             Inr \<lparr>out_response_text = get_or (response_text result) [],
                  out_artifacts = get_or (artifacts result) [],
                  out_state =
                    no_update
                      \<lparr>linear_meters := Some (get_none (linear_meters result)),
                       shape := Some (get_none (shape result)),
                       style := Some (get_none (style result)),
                       materials := Some (get_none (materials result)),
                       colors := Some (get_none (colors result)),
                       budget := Some (get_none (budget result)),
                       current_image := Some (get_none (current_image result)),
                       design_version := design_version result,
                       design_history := design_history result,
                       messages := messages result\<rparr>\<rparr>)"

section \<open>Sample collaborators and states\<close>

text \<open>
  Collaborators that give fixed answers, for the concrete runs below. Their \<open>float_str\<close>
  is Python's \<^verbatim>\<open>repr\<close> on the floats with an integral value that the runs print: the
  integer followed by \<^verbatim>\<open>.0\<close>.
\<close>

definition fixed_services :: "analysis \<Rightarrow> image_result \<Rightarrow> image_result \<Rightarrow> services" where
  "fixed_services an generated edited =
     \<lparr>analyze_request = (\<lambda>user_message ctx. Inr an),
      chat_reply = (\<lambda>history user_message. Inr ''Claro.''),
      generate_image = (\<lambda>request. generated),
      edit_image = (\<lambda>base_image instructions. edited),
      float_str = (\<lambda>x. str_int \<lfloor>x\<rfloor> @ ''.0'')\<rparr>"

text \<open>An answer of the classifier with no key at all, to which the runs add keys.\<close>

definition no_analysis :: analysis where
  "no_analysis =
     \<lparr>an_action = None, an_linear_meters = None, an_shape = None, an_style = None,
      an_materials = None, an_colors = None, an_budget = None, questions_to_ask = None\<rparr>"

text \<open>
  The state that \<^verbatim>\<open>run\<close> returns, and the caller caches, after a first turn that
  generated a design of 3 metres, shape L, style modern.
\<close>

definition first_design :: KitchenState where
  "first_design =
     no_update
       \<lparr>linear_meters := Some (Some (FloatNum 3)), shape := Some (Some ''L''),
        style := Some (Some ''modern''), materials := Some (Some []),
        colors := Some (Some []), budget := Some None,
        current_image := Some (Some ''aW1hZ2VuMQ==''), design_version := Some 1,
        design_history :=
          Some [\<lparr>version = 1,
                 params = \<lparr>p_linear_meters = Some (FloatNum 3), p_shape = Some ''L'',
                           p_style = Some ''modern'', p_materials = Some []\<rparr>\<rparr>],
        messages := Some [\<lparr>role = ''user'', content = ''cocina de 3 metros en L moderna''\<rparr>]\<rparr>"

text \<open>
  The same state with two stored materials; two answers of the classifier for the stored
  shape L, the first with three materials (a string, \<^verbatim>\<open>null\<close> and the empty string); and
  collaborators at rest.
\<close>

definition oak_design :: KitchenState where
  "oak_design =
     first_design\<lparr>materials := Some (Some [(''cabinets'', ''oak''), (''countertop'', ''marble'')])\<rparr>"

definition shape_u_analysis :: analysis where
  "shape_u_analysis =
     no_analysis\<lparr>an_action := Some (Some ''edit''), an_shape := Some (Some ''U''),
                 an_materials := Some (Some [(''countertop'', Some ''granite''),
                                             (''cabinets'', None),
                                             (''backsplash'', Some [])])\<rparr>"

definition shape_null_analysis :: analysis where
  "shape_null_analysis = no_analysis\<lparr>an_action := Some (Some ''edit''), an_shape := Some None\<rparr>"

definition idle_services :: services where
  "idle_services = fixed_services no_analysis (ImageFailure ''offline'') (ImageFailure ''offline'')"




definition generate_again :: analysis where
  "generate_again = no_analysis\<lparr>an_action := Some (Some ''generate'')\<rparr>"

definition quota_services :: services where
  "quota_services =
     fixed_services generate_again (ImageFailure ''quota exceeded'') (ImageFailure ''offline'')"



definition silent_turn :: KitchenState where
  "silent_turn = first_design\<lparr>messages := Some []\<rparr>"

definition premium_state :: KitchenState where
  "premium_state = first_design\<lparr>budget := Some (Some ''premium'')\<rparr>"

definition image_services :: services where
  "image_services =
     fixed_services generate_again (ImageSuccess [''aW1hZ2VuMg=='']) (ImageFailure ''offline'')"

definition edit_analysis :: analysis where
  "edit_analysis = no_analysis\<lparr>an_action := Some (Some ''edit'')\<rparr>"

definition edit_services :: services where
  "edit_services =
     fixed_services edit_analysis (ImageFailure ''offline'') (ImageSuccess [''aW1hZ2VuMg==''])"

definition edit_fallback_services :: "image_result \<Rightarrow> services" where
  "edit_fallback_services edited =
     fixed_services edit_analysis (ImageSuccess [''aW1hZ2VuMg=='']) edited"

definition edit_turn :: KitchenState where
  "edit_turn =
     first_design
       \<lparr>messages := Some [\<lparr>role = ''user'', content = ''cocina de 3 metros en L moderna''\<rparr>,
                          \<lparr>role = ''user'', content = ''hazla azul''\<rparr>]\<rparr>"

definition fresh_edit_turn :: KitchenState where
  "fresh_edit_turn =
     (initial_state ''u1'' ''c1'')\<lparr>messages := Some [\<lparr>role = ''user'', content = ''hazla azul''\<rparr>]\<rparr>"

section \<open>The rounding\<close>

text \<open>
  The exponent that \<open>ilog2\<close> finds brackets its argument, and \<open>to_double\<close> moves a
  number by at most half a unit of the last place of its binade.
\<close>

lemma bit_length_nonneg: "0 \<le> bit_length n"
  by (induction n rule: bit_length.induct) (subst bit_length.simps, simp)

lemma bit_length_pos: "0 < n \<Longrightarrow> 0 < bit_length n"
  using bit_length_nonneg[of "n div 2"] by (subst bit_length.simps) simp

lemma bit_length_bounds:
  "0 < n \<Longrightarrow> 2 ^ nat (bit_length n - 1) \<le> n \<and> n < 2 ^ nat (bit_length n)"
proof (induction n rule: bit_length.induct)
  case (1 n)
  show ?case
  proof (cases "n = 1")
    case True
    have "bit_length 1 = 1"
      by (subst bit_length.simps, simp, subst bit_length.simps, simp)
    with True show ?thesis by simp
  next
    case False
    with 1(2) have h: "0 < n div 2" by simp
    from 1(1)[OF _ h] 1(2)
    have ih: "2 ^ nat (bit_length (n div 2) - 1) \<le> n div 2" "n div 2 < 2 ^ nat (bit_length (n div 2))"
      by simp_all
    have bl: "bit_length n = 1 + bit_length (n div 2)"
      using 1(2) by (subst bit_length.simps) simp
    have p: "0 < bit_length (n div 2)" using h by (rule bit_length_pos)
    have e1: "nat (bit_length n - 1) = Suc (nat (bit_length (n div 2) - 1))"
      using p bl by simp
    have e2: "nat (bit_length n) = Suc (nat (bit_length (n div 2)))"
      using p bl by simp
    show ?thesis unfolding e1 e2 using ih by simp linarith
  qed
qed

lemma pow2_pos: "0 < pow2 e"
  by (simp add: pow2_def)

lemma ilog2_bracket:
  assumes "0 < q"
  shows "pow2 (ilog2 q) \<le> q \<and> q < pow2 (ilog2 q + 1)"
proof (cases "1 \<le> q")
  case True
  define n where "n = \<lfloor>q\<rfloor>"
  have n: "0 < n" using True by (simp add: n_def)
  from bit_length_bounds[OF n]
  have b: "2 ^ nat (bit_length n - 1) \<le> n" "n < 2 ^ nat (bit_length n)" by simp_all
  have p: "0 < bit_length n" using n by (rule bit_length_pos)
  have il: "ilog2 q = bit_length n - 1" using True by (simp add: ilog2_def n_def)
  have lo: "(of_int n :: rat) \<le> q" by (simp add: n_def)
  have hi: "q < of_int (n + 1)" unfolding n_def by linarith
  have "(2::rat) ^ nat (bit_length n - 1) = of_int (2 ^ nat (bit_length n - 1))" by simp
  also have "\<dots> \<le> of_int n" using b(1) by (simp only: of_int_le_iff)
  also have "\<dots> \<le> q" by (rule lo)
  finally have l: "(2::rat) ^ nat (bit_length n - 1) \<le> q" .
  have s: "n + 1 \<le> 2 ^ nat (bit_length n)" using b(2) by simp
  note hi
  also have "(of_int (n + 1) :: rat) \<le> of_int (2 ^ nat (bit_length n))"
    using s by (simp only: of_int_le_iff)
  also have "\<dots> = 2 ^ nat (bit_length n)" by simp
  finally have u: "q < (2::rat) ^ nat (bit_length n)" .
  show ?thesis using l u p by (simp add: il pow2_def)
next
  case False
  define r where "r = 1 / q"
  define m where "m = \<lceil>r\<rceil> - 1"
  have r: "1 < r" using False assms by (simp add: r_def)
  have m: "0 < m" using r by (simp add: m_def)
  from bit_length_bounds[OF m]
  have b: "2 ^ nat (bit_length m - 1) \<le> m" "m < 2 ^ nat (bit_length m)" by simp_all
  have p: "0 < bit_length m" using m by (rule bit_length_pos)
  have il: "ilog2 q = - bit_length m" using False by (simp add: ilog2_def m_def r_def)
  have lo: "(of_int m :: rat) < r" unfolding m_def by linarith
  have hi: "r \<le> of_int (m + 1)" unfolding m_def by simp
  have "(2::rat) ^ nat (bit_length m - 1) = of_int (2 ^ nat (bit_length m - 1))" by simp
  also have "\<dots> \<le> of_int m" using b(1) by (simp only: of_int_le_iff)
  also have "\<dots> < r" by (rule lo)
  finally have l: "(2::rat) ^ nat (bit_length m - 1) < r" .
  have s: "m + 1 \<le> 2 ^ nat (bit_length m)" using b(2) by simp
  note hi
  also have "(of_int (m + 1) :: rat) \<le> of_int (2 ^ nat (bit_length m))"
    using s by (simp only: of_int_le_iff)
  also have "\<dots> = 2 ^ nat (bit_length m)" by simp
  finally have u: "r \<le> (2::rat) ^ nat (bit_length m)" .
  have q: "q = 1 / r" using assms by (simp add: r_def)
  have rp: "0 < r" using r by simp
  have one: "1 / (2::rat) ^ nat (bit_length m) \<le> q"
    unfolding q using u rp by (simp add: field_simps)
  have two: "q < 1 / (2::rat) ^ nat (bit_length m - 1)"
    unfolding q using l rp by (simp add: field_simps)
  have e: "pow2 (- bit_length m + 1) = 1 / (2::rat) ^ nat (bit_length m - 1)"
    using p by (cases "bit_length m = 1") (simp_all add: pow2_def)
  have e0: "pow2 (- bit_length m) = 1 / (2::rat) ^ nat (bit_length m)"
    using p by (simp add: pow2_def)
  show ?thesis unfolding il e e0 using one two by simp
qed

lemma round_half_even_near: "\<bar>of_int (round_half_even x) - x\<bar> \<le> 1 / 2"
proof -
  define f where "f = \<lfloor>x\<rfloor>"
  have "of_int f \<le> x" "x < of_int f + 1"
    unfolding f_def by linarith+
  then show ?thesis
    unfolding round_half_even_def Let_def f_def[symmetric]
    by (simp add: abs_if)
qed

lemma to_double_near:
  "\<bar>to_double q - q\<bar> \<le> pow2 (max (ilog2 \<bar>q\<bar> - 52) (- 1074)) / 2"
proof (cases "q = 0")
  case True
  then show ?thesis using pow2_pos[of "max (ilog2 \<bar>q\<bar> - 52) (- 1074)"]
    by (simp add: to_double_def)
next
  case False
  define e where "e = max (ilog2 \<bar>q\<bar> - 52) (- 1074)"
  define m where "m = round_half_even (\<bar>q\<bar> / pow2 e)"
  have pe: "0 < pow2 e" by (rule pow2_pos)
  have td: "to_double q = sgn q * of_int m * pow2 e"
    using False by (simp add: to_double_def Let_def e_def m_def)
  have "to_double q - q = sgn q * ((of_int m - \<bar>q\<bar> / pow2 e) * pow2 e)"
    using pe by (simp add: td algebra_simps abs_sgn)
  then have "\<bar>to_double q - q\<bar> = \<bar>of_int m - \<bar>q\<bar> / pow2 e\<bar> * pow2 e"
    using False pe by (simp add: abs_mult abs_sgn_eq)
  also have "\<dots> \<le> (1 / 2) * pow2 e"
    using round_half_even_near[of "\<bar>q\<bar> / pow2 e"] pe
    unfolding m_def by (intro mult_right_mono) simp_all
  finally show ?thesis by (simp add: e_def)
qed

section \<open>Arithmetic of the module distribution\<close>

lemma bit_length_numeral:
  "bit_length 0 = 0" "bit_length 1 = 1"
  "bit_length (numeral k) = 1 + bit_length (numeral k div 2)"
  by (simp_all add: bit_length.simps[of 0] bit_length.simps[of 1]
        bit_length.simps[of "numeral k"])

lemma floor_rat_numeral:
  "\<lfloor>numeral a / numeral b :: rat\<rfloor> = numeral a div numeral b"
  "\<lfloor>1 / numeral b :: rat\<rfloor> = 1 div numeral b"
  "\<lceil>numeral a / numeral b :: rat\<rceil> = - (- numeral a div numeral b)"
  "\<lceil>1 / numeral b :: rat\<rceil> = - (- 1 div numeral b)"
  using floor_divide_of_int_eq[where ?'a = rat, of "numeral a" "numeral b"]
        floor_divide_of_int_eq[where ?'a = rat, of "- numeral a" "numeral b"]
        floor_divide_of_int_eq[where ?'a = rat, of 1 "numeral b"]
        floor_divide_of_int_eq[where ?'a = rat, of "- 1" "numeral b"]
  by (simp_all add: ceiling_def)

lemmas round_eval = to_double_def ilog2_def pow2_def round_half_even_def Let_def
  floor_rat_numeral bit_length_numeral

text \<open>The three literals, as Python's \<^verbatim>\<open>float.as_integer_ratio\<close> gives them.\<close>

lemma lit_vals:
  "lit_0_9 = 8106479329266893 / 9007199254740992"
  "lit_0_6 = 5404319552844595 / 9007199254740992"
  "lit_0_4 = 3602879701896397 / 9007199254740992"
  by (simp_all add: lit_0_9_def lit_0_6_def lit_0_4_def round_eval)

text \<open>
  Three metres: \<^verbatim>\<open>3.0 - 0.9 = 2.1\<close>, \<^verbatim>\<open>2.1 - 0.6 = 1.5\<close>, \<^verbatim>\<open>1.5 - 0.6 = 0.9\<close>,
  \<^verbatim>\<open>int(0.9 / 0.6) = int(1.5) = 1\<close>, \<^verbatim>\<open>0.9 - 1 * 0.6 = 0.30000000000000004\<close>,
  \<^verbatim>\<open>int(0.30000000000000004 / 0.4) = int(0.7500000000000001) = 0\<close>.
\<close>

lemma three_metres_sink:
  "fsub 3 (8106479329266893 / 9007199254740992) = 4728779608739021 / 2251799813685248"
  by (simp add: fsub_def round_eval)

lemma three_metres_cooktop:
  "fsub (4728779608739021 / 2251799813685248) (5404319552844595 / 9007199254740992) = 3 / 2"
  by (simp add: fsub_def round_eval)

lemma three_metres_fridge:
  "fsub (3 / 2) (5404319552844595 / 9007199254740992) = 8106479329266893 / 9007199254740992"
  by (simp add: fsub_def round_eval)

lemma three_metres_storage_60:
  "fdiv (8106479329266893 / 9007199254740992) (5404319552844595 / 9007199254740992) = 3 / 2"
  "py_int (3 / 2) = Inr 1"
  "fmul (float_of_int 1) (5404319552844595 / 9007199254740992)
     = 5404319552844595 / 9007199254740992"
  "fsub (8106479329266893 / 9007199254740992) (5404319552844595 / 9007199254740992)
     = 1351079888211149 / 4503599627370496"
  by (simp_all add: fdiv_def fmul_def fsub_def float_of_int_def py_int_def round_eval)

lemma three_metres_storage_40:
  "fdiv (1351079888211149 / 4503599627370496) (3602879701896397 / 9007199254740992)
     = 6755399441055745 / 9007199254740992"
  "py_int (6755399441055745 / 9007199254740992) = Inr 0"
  by (simp_all add: fdiv_def py_int_def round_eval)

lemma pack_modules_3:
  "pack_modules 3 =
     Inr ([module_sink, module_cooktop, module_fridge, module_storage 1 ''60cm''], 1, 0)"
  by (simp add: pack_modules_def take_module_def lit_vals three_metres_sink
        three_metres_cooktop three_metres_fridge three_metres_storage_60
        three_metres_storage_40)

text \<open>
  One metre: \<^verbatim>\<open>1.0 - 0.9 = 0.09999999999999998\<close>, which is below \<^verbatim>\<open>0.6\<close>;
  \<^verbatim>\<open>int(0.09999999999999998 / 0.6) = 0\<close>, \<^verbatim>\<open>0 * 0.6 = 0.0\<close>,
  \<^verbatim>\<open>int(0.09999999999999998 / 0.4) = int(0.24999999999999994) = 0\<close>.
\<close>

lemma one_metre_sink:
  "fsub 1 (8106479329266893 / 9007199254740992) = 900719925474099 / 9007199254740992"
  by (simp add: fsub_def round_eval)

lemma one_metre_storage_60:
  "fdiv (900719925474099 / 9007199254740992) (5404319552844595 / 9007199254740992)
     = 1501199875790165 / 9007199254740992"
  "py_int (1501199875790165 / 9007199254740992) = Inr 0"
  "fmul (float_of_int 0) (5404319552844595 / 9007199254740992) = 0"
  "fsub (900719925474099 / 9007199254740992) 0 = 900719925474099 / 9007199254740992"
  by (simp_all add: fdiv_def fmul_def fsub_def float_of_int_def py_int_def round_eval)

lemma one_metre_storage_40:
  "fdiv (900719925474099 / 9007199254740992) (3602879701896397 / 9007199254740992)
     = 4503599627370495 / 18014398509481984"
  "py_int (4503599627370495 / 18014398509481984) = Inr 0"
  by (simp_all add: fdiv_def py_int_def round_eval)

lemma pack_modules_1: "pack_modules 1 = Inr ([module_sink], 0, 0)"
  by (simp add: pack_modules_def take_module_def lit_vals one_metre_sink
        one_metre_storage_60 one_metre_storage_40)

section \<open>Module packing examples\<close>

text \<open>
  C7. On a linear size of 3.0 metres the module distribution has one sink module (90cm),
  one cooktop module (60cm), one refrigerator module (60cm), then one storage module of
  60cm and no storage module of 40cm; on 1.0 metre it has the sink module only and no
  storage module.
\<close>

theorem module_packing_examples:
  "pack_modules 3 =
     Inr ([module_sink, module_cooktop, module_fridge, module_storage 1 ''60cm''], 1, 0)
   \<and> pack_modules 1 = Inr ([module_sink], 0, 0)"
  using pack_modules_3 pack_modules_1 by simp

section \<open>Reading the entries of states and updates\<close>

lemma no_update_sel [simp]:
  "messages no_update = None" "user_id no_update = None" "conversation_id no_update = None"
  "linear_meters no_update = None" "shape no_update = None" "style no_update = None"
  "materials no_update = None" "colors no_update = None" "budget no_update = None"
  "current_image no_update = None" "design_version no_update = None"
  "design_history no_update = None" "action no_update = None"
  "needs_clarification no_update = None" "questions no_update = None"
  "response_text no_update = None" "artifacts no_update = None" "error no_update = None"
  by (simp_all add: no_update_def)

lemma apply_update_sel [simp]:
  "linear_meters (apply_update s u) = put (linear_meters s) (linear_meters u)"
  "shape (apply_update s u) = put (shape s) (shape u)"
  "style (apply_update s u) = put (style s) (style u)"
  "materials (apply_update s u) = put (materials s) (materials u)"
  "colors (apply_update s u) = put (colors s) (colors u)"
  "budget (apply_update s u) = put (budget s) (budget u)"
  "current_image (apply_update s u) = put (current_image s) (current_image u)"
  "design_version (apply_update s u) = put (design_version s) (design_version u)"
  "design_history (apply_update s u) = put (design_history s) (design_history u)"
  "action (apply_update s u) = put (action s) (action u)"
  "needs_clarification (apply_update s u) = put (needs_clarification s) (needs_clarification u)"
  "questions (apply_update s u) = put (questions s) (questions u)"
  "response_text (apply_update s u) = put (response_text s) (response_text u)"
  "artifacts (apply_update s u) = put (artifacts s) (artifacts u)"
  "error (apply_update s u) = put (error s) (error u)"
  "user_id (apply_update s u) = put (user_id s) (user_id u)"
  "conversation_id (apply_update s u) = put (conversation_id s) (conversation_id u)"
  by (simp_all add: apply_update_def)

lemma put_simps [simp]: "put old None = old" "put old (Some v) = Some v"
  by (simp_all add: put_def)


lemma sel_if:
  "linear_meters (if c then a else b) = (if c then linear_meters a else linear_meters b)"
  "shape (if c then a else b) = (if c then shape a else shape b)"
  "style (if c then a else b) = (if c then style a else style b)"
  "materials (if c then a else b) = (if c then materials a else materials b)"
  "colors (if c then a else b) = (if c then colors a else colors b)"
  "budget (if c then a else b) = (if c then budget a else budget b)"
  "current_image (if c then a else b) = (if c then current_image a else current_image b)"
  "design_version (if c then a else b) = (if c then design_version a else design_version b)"
  "design_history (if c then a else b) = (if c then design_history a else design_history b)"
  "action (if c then a else b) = (if c then action a else action b)"
  "needs_clarification (if c then a else b)
     = (if c then needs_clarification a else needs_clarification b)"
  "questions (if c then a else b) = (if c then questions a else questions b)"
  "response_text (if c then a else b) = (if c then response_text a else response_text b)"
  "artifacts (if c then a else b) = (if c then artifacts a else artifacts b)"
  "error (if c then a else b) = (if c then error a else error b)"
  "messages (if c then a else b) = (if c then messages a else messages b)"
  by (rule if_distrib)+



lemma merge_size_shape_style_sel:
  "linear_meters (merge_size_shape_style an base) =
     (if truthy_num (get_none (an_linear_meters an))
      then Some (get_none (an_linear_meters an)) else linear_meters base)"
  "shape (merge_size_shape_style an base) =
     (if truthy_seq (get_none (an_shape an)) then Some (get_none (an_shape an)) else shape base)"
  "style (merge_size_shape_style an base) =
     (if truthy_seq (get_none (an_style an)) then Some (get_none (an_style an)) else style base)"
  "materials (merge_size_shape_style an base) = materials base"
  "colors (merge_size_shape_style an base) = colors base"
  "budget (merge_size_shape_style an base) = budget base"
  "action (merge_size_shape_style an base) = action base"
  "needs_clarification (merge_size_shape_style an base) = needs_clarification base"
  "questions (merge_size_shape_style an base) = questions base"
  "current_image (merge_size_shape_style an base) = current_image base"
  "design_version (merge_size_shape_style an base) = design_version base"
  "design_history (merge_size_shape_style an base) = design_history base"
  "messages (merge_size_shape_style an base) = messages base"
  "response_text (merge_size_shape_style an base) = response_text base"
  "artifacts (merge_size_shape_style an base) = artifacts base"
  "error (merge_size_shape_style an base) = error base"
  by (simp_all add: merge_size_shape_style_def Let_def sel_if)

lemma merge_colors_budget_sel:
  "colors (merge_colors_budget an base) =
     (if truthy_seq (get_none (an_colors an)) then Some (get_none (an_colors an)) else colors base)"
  "budget (merge_colors_budget an base) =
     (if truthy_seq (get_none (an_budget an)) then Some (get_none (an_budget an)) else budget base)"
  "linear_meters (merge_colors_budget an base) = linear_meters base"
  "shape (merge_colors_budget an base) = shape base"
  "style (merge_colors_budget an base) = style base"
  "materials (merge_colors_budget an base) = materials base"
  "action (merge_colors_budget an base) = action base"
  "needs_clarification (merge_colors_budget an base) = needs_clarification base"
  "questions (merge_colors_budget an base) = questions base"
  "current_image (merge_colors_budget an base) = current_image base"
  "design_version (merge_colors_budget an base) = design_version base"
  "design_history (merge_colors_budget an base) = design_history base"
  "messages (merge_colors_budget an base) = messages base"
  "response_text (merge_colors_budget an base) = response_text base"
  "artifacts (merge_colors_budget an base) = artifacts base"
  "error (merge_colors_budget an base) = error base"
  by (simp_all add: merge_colors_budget_def Let_def sel_if)

lemma merge_materials_cases:
  assumes "merge_materials state an base = Inr u"
  shows "(\<not> truthy_seq (get_none (an_materials an)) \<and> u = base)
       \<or> (truthy_seq (get_none (an_materials an))
          \<and> (\<exists>stored. get_or (materials state) (Some []) = Some stored
               \<and> u = base\<lparr>materials := Some (Some (dict_update stored
                        (truthy_items (get_or (get_none (an_materials an)) []))))\<rparr>))"
  using assms
  by (cases "truthy_seq (get_none (an_materials an))";
      cases "get_or (materials state) (Some [])") (auto simp: merge_materials_def)


lemma merge_parameters_returns:
  assumes "truthy_seq (get_none (an_materials an)) \<longrightarrow> materials state \<noteq> Some None"
  shows "\<exists>u. merge_parameters state an base = Inr u"
  using assms
  by (cases "materials state")
     (auto simp: merge_parameters_def merge_materials_def get_or_def split: option.splits)

lemma merge_parameters_sel:
  assumes "merge_parameters state an base = Inr u"
  shows "linear_meters u = (if truthy_num (get_none (an_linear_meters an))
                            then Some (get_none (an_linear_meters an)) else linear_meters base)"
    and "shape u = (if truthy_seq (get_none (an_shape an))
                    then Some (get_none (an_shape an)) else shape base)"
    and "style u = (if truthy_seq (get_none (an_style an))
                    then Some (get_none (an_style an)) else style base)"
    and "colors u = (if truthy_seq (get_none (an_colors an))
                     then Some (get_none (an_colors an)) else colors base)"
    and "budget u = (if truthy_seq (get_none (an_budget an))
                     then Some (get_none (an_budget an)) else budget base)"
    and "action u = action base" and "needs_clarification u = needs_clarification base"
    and "questions u = questions base"
    and "current_image u = current_image base" and "design_version u = design_version base"
    and "design_history u = design_history base" and "messages u = messages base"
    and "response_text u = response_text base" and "artifacts u = artifacts base"
    and "error u = error base"
proof -
  from assms obtain u4 where
    m: "merge_materials state an (merge_size_shape_style an base) = Inr u4"
    and u: "u = merge_colors_budget an u4"
    by (auto simp: merge_parameters_def split: sum.splits)
  from merge_materials_cases[OF m]
  have u4: "linear_meters u4 = linear_meters (merge_size_shape_style an base)"
    "shape u4 = shape (merge_size_shape_style an base)"
    "style u4 = style (merge_size_shape_style an base)"
    "colors u4 = colors (merge_size_shape_style an base)"
    "budget u4 = budget (merge_size_shape_style an base)"
    "action u4 = action (merge_size_shape_style an base)"
    "needs_clarification u4 = needs_clarification (merge_size_shape_style an base)"
    "questions u4 = questions (merge_size_shape_style an base)"
    "current_image u4 = current_image (merge_size_shape_style an base)"
    "design_version u4 = design_version (merge_size_shape_style an base)"
    "design_history u4 = design_history (merge_size_shape_style an base)"
    "messages u4 = messages (merge_size_shape_style an base)"
    "response_text u4 = response_text (merge_size_shape_style an base)"
    "artifacts u4 = artifacts (merge_size_shape_style an base)"
    "error u4 = error (merge_size_shape_style an base)"
    by auto
  show "linear_meters u = (if truthy_num (get_none (an_linear_meters an))
                            then Some (get_none (an_linear_meters an)) else linear_meters base)"
    and "shape u = (if truthy_seq (get_none (an_shape an))
                    then Some (get_none (an_shape an)) else shape base)"
    and "style u = (if truthy_seq (get_none (an_style an))
                    then Some (get_none (an_style an)) else style base)"
    and "colors u = (if truthy_seq (get_none (an_colors an))
                     then Some (get_none (an_colors an)) else colors base)"
    and "budget u = (if truthy_seq (get_none (an_budget an))
                     then Some (get_none (an_budget an)) else budget base)"
    and "action u = action base" and "needs_clarification u = needs_clarification base"
    and "questions u = questions base"
    and "current_image u = current_image base" and "design_version u = design_version base"
    and "design_history u = design_history base" and "messages u = messages base"
    and "response_text u = response_text base" and "artifacts u = artifacts base"
    and "error u = error base"
    by (simp_all only: u merge_colors_budget_sel u4 merge_size_shape_style_sel)
qed

lemma merge_parameters_materials:
  assumes "merge_parameters state an base = Inr u"
  shows "(\<not> truthy_seq (get_none (an_materials an)) \<and> materials u = materials base)
       \<or> (truthy_seq (get_none (an_materials an))
          \<and> (\<exists>stored. get_or (materials state) (Some []) = Some stored
               \<and> materials u = Some (Some (dict_update stored
                        (truthy_items (get_or (get_none (an_materials an)) []))))))"
proof -
  from assms obtain u4 where
    m: "merge_materials state an (merge_size_shape_style an base) = Inr u4"
    and u: "u = merge_colors_budget an u4"
    by (auto simp: merge_parameters_def split: sum.splits)
  from merge_materials_cases[OF m] show ?thesis
    by (auto simp: u merge_colors_budget_sel merge_size_shape_style_sel)
qed

lemma analysis_updates_sel [simp]:
  "action (analysis_updates an) = Some (get_or (an_action an) (Some ''respond''))"
  "needs_clarification (analysis_updates an)
     = Some (get_none (an_action an) = Some ''clarification'')"
  "questions (analysis_updates an) = Some (get_or (questions_to_ask an) (Some []))"
  "linear_meters (analysis_updates an) = None" "shape (analysis_updates an) = None"
  "style (analysis_updates an) = None" "materials (analysis_updates an) = None"
  "colors (analysis_updates an) = None" "budget (analysis_updates an) = None"
  "current_image (analysis_updates an) = None" "design_version (analysis_updates an) = None"
  "design_history (analysis_updates an) = None" "messages (analysis_updates an) = None"
  "response_text (analysis_updates an) = None" "artifacts (analysis_updates an) = None"
  "error (analysis_updates an) = None"
  by (simp_all add: analysis_updates_def)

lemma require_size_sel [simp]:
  "linear_meters (require_size state u) = linear_meters u"
  "shape (require_size state u) = shape u" "style (require_size state u) = style u"
  "materials (require_size state u) = materials u" "colors (require_size state u) = colors u"
  "budget (require_size state u) = budget u" "action (require_size state u) = action u"
  "current_image (require_size state u) = current_image u"
  "design_version (require_size state u) = design_version u"
  "design_history (require_size state u) = design_history u"
  "messages (require_size state u) = messages u"
  "response_text (require_size state u) = response_text u"
  "artifacts (require_size state u) = artifacts u" "error (require_size state u) = error u"
  by (simp_all add: require_size_def)

lemma analyze_input_fixed:
  assumes "get_or (messages state) [] \<noteq> []"
  shows "analyze_input (env\<lparr>analyze_request := \<lambda>user_message ctx. Inr an\<rparr>) state =
     (case merge_parameters state an (analysis_updates an) of
        Inl e \<Rightarrow> Inl e
      | Inr updates \<Rightarrow> Inr (require_size state updates))"
  using assms by (simp add: analyze_input_def Let_def)


lemma map_of_dict_update:
  "map_of (dict_update d other) k =
     (case map_of (rev other) k of None \<Rightarrow> map_of d k | Some v \<Rightarrow> Some v)"
proof (induction other arbitrary: d)
  case Nil
  then show ?case by (simp add: dict_update_def)
next
  case (Cons p ps)
  obtain k' v' where p: "p = (k', v')" by (cases p)
  have "dict_update d (p # ps) = dict_update (AList.update k' v' d) ps"
    by (simp add: dict_update_def p)
  then show ?case
    using Cons.IH[of "AList.update k' v' d"]
    by (auto simp: p update_conv' map_add_def split: option.splits)
qed

section \<open>Additive merge of the extracted parameters\<close>

text \<open>
  The items that pass the filter, read by key: a key is there when the extracted dict
  holds a non-empty string under it.
\<close>

lemma truthy_items_keys: "k \<notin> fst ` set items \<Longrightarrow> k \<notin> fst ` set (truthy_items items)"
  by (induction items) (auto simp: truthy_items_def split: option.splits if_splits)

lemma map_of_truthy_items:
  assumes "distinct (map fst items)"
  shows "map_of (rev (truthy_items items)) k =
     (case map_of items k of
        None \<Rightarrow> None
      | Some None \<Rightarrow> None
      | Some (Some v) \<Rightarrow> if v = [] then None else Some v)"
  using assms
proof (induction items)
  case Nil
  then show ?case by (simp add: truthy_items_def)
next
  case (Cons p ps)
  obtain k' v where p: "p = (k', v)" by (cases p)
  have t: "truthy_items (p # ps) =
      (case v of None \<Rightarrow> [] | Some s \<Rightarrow> if s = [] then [] else [(k', s)]) @ truthy_items ps"
    by (simp add: truthy_items_def p)
  from Cons.prems have "k' \<notin> fst ` set ps" by (simp add: p)
  then have "k' \<notin> fst ` set (truthy_items ps)" by (rule truthy_items_keys)
  then have n: "map_of (rev (truthy_items ps)) k' = None"
    by (simp add: map_of_eq_None_iff)
  from Cons have ih: "map_of (rev (truthy_items ps)) k =
     (case map_of ps k of
        None \<Rightarrow> None
      | Some None \<Rightarrow> None
      | Some (Some v) \<Rightarrow> if v = [] then None else Some v)"
    by simp
  show ?case
  proof (cases "k = k'")
    case True
    then show ?thesis
      unfolding t using n by (simp add: p map_add_def split: option.splits)
  next
    case False
    then show ?thesis
      unfolding t using ih by (simp add: p map_add_def split: option.splits)
  qed
qed

lemma merged_materials:
  assumes "distinct (map fst items)"
  shows "map_of (dict_update stored (truthy_items items)) k =
     (case map_of items k of
        None \<Rightarrow> map_of stored k
      | Some None \<Rightarrow> map_of stored k
      | Some (Some v) \<Rightarrow> if v = [] then map_of stored k else Some v)"
  by (simp add: map_of_dict_update map_of_truthy_items[OF assms] split: option.splits)

text \<open>
  C5. In a turn with a user message whose merge does not raise, with \<open>an\<close> the
  classifier's answer (a dict, so each key of its materials occurs once): each of size,
  shape, style, colors and budget is, after the merge, the stored entry when the
  extracted value is absent or \<^verbatim>\<open>null\<close> (and also when it is zero or empty), and the
  extracted value otherwise; with stored shape L, an extracted shape \<^verbatim>\<open>null\<close> leaves L and
  an extracted shape U gives U. The materials are merged key by key: when the extracted
  dict is absent, \<^verbatim>\<open>null\<close> or empty the stored dict stays; otherwise every key of the
  merged dict holds the extracted string when that is there and not empty, and what the
  stored dict holds under that key in every other case (extracted key absent, \<^verbatim>\<open>null\<close>
  or the empty string).
\<close>

theorem additive_merge:
  assumes "get_or (messages state) [] \<noteq> []"
      and "truthy_seq (get_none (an_materials an)) \<longrightarrow> materials state \<noteq> Some None"
      and "distinct (map fst (get_or (get_none (an_materials an)) []))"
  shows "\<exists>updates.
     analyze_input (env\<lparr>analyze_request := \<lambda>user_message ctx. Inr an\<rparr>) state = Inr updates
     \<and> linear_meters (apply_update state updates) =
         (case an_linear_meters an of
            None \<Rightarrow> linear_meters state
          | Some None \<Rightarrow> linear_meters state
          | Some (Some x) \<Rightarrow>
              if x = IntNum 0 \<or> x = FloatNum 0 then linear_meters state else Some (Some x))
     \<and> shape (apply_update state updates) =
         (case an_shape an of
            None \<Rightarrow> shape state
          | Some None \<Rightarrow> shape state
          | Some (Some v) \<Rightarrow> if v = [] then shape state else Some (Some v))
     \<and> style (apply_update state updates) =
         (case an_style an of
            None \<Rightarrow> style state
          | Some None \<Rightarrow> style state
          | Some (Some v) \<Rightarrow> if v = [] then style state else Some (Some v))
     \<and> colors (apply_update state updates) =
         (case an_colors an of
            None \<Rightarrow> colors state
          | Some None \<Rightarrow> colors state
          | Some (Some v) \<Rightarrow> if v = [] then colors state else Some (Some v))
     \<and> budget (apply_update state updates) =
         (case an_budget an of
            None \<Rightarrow> budget state
          | Some None \<Rightarrow> budget state
          | Some (Some v) \<Rightarrow> if v = [] then budget state else Some (Some v))
     \<and> (case an_materials an of
          None \<Rightarrow> materials (apply_update state updates) = materials state
        | Some None \<Rightarrow> materials (apply_update state updates) = materials state
        | Some (Some items) \<Rightarrow>
            if items = [] then materials (apply_update state updates) = materials state
            else \<exists>stored merged.
                   (materials state = Some (Some stored) \<or> materials state = None \<and> stored = [])
                   \<and> materials (apply_update state updates) = Some (Some merged)
                   \<and> (\<forall>k. map_of merged k =
                         (case map_of items k of
                            None \<Rightarrow> map_of stored k
                          | Some None \<Rightarrow> map_of stored k
                          | Some (Some v) \<Rightarrow> if v = [] then map_of stored k else Some v)))"
proof -
  from merge_parameters_returns[OF assms(2)] obtain u
    where u: "merge_parameters state an (analysis_updates an) = Inr u" by blast
  let ?updates = "require_size state u"
  have run: "analyze_input (env\<lparr>analyze_request := \<lambda>user_message ctx. Inr an\<rparr>) state
               = Inr ?updates"
    by (simp add: analyze_input_fixed[OF assms(1)] u)
  note sel = merge_parameters_sel[OF u]
  have size: "linear_meters (apply_update state ?updates) =
         (case an_linear_meters an of
            None \<Rightarrow> linear_meters state
          | Some None \<Rightarrow> linear_meters state
          | Some (Some x) \<Rightarrow>
              if x = IntNum 0 \<or> x = FloatNum 0 then linear_meters state else Some (Some x))"
    by (simp add: sel truthy_num_def get_none_def split: option.splits number.splits)
  have fields:
    "shape (apply_update state ?updates) =
         (case an_shape an of
            None \<Rightarrow> shape state
          | Some None \<Rightarrow> shape state
          | Some (Some v) \<Rightarrow> if v = [] then shape state else Some (Some v))"
    "style (apply_update state ?updates) =
         (case an_style an of
            None \<Rightarrow> style state
          | Some None \<Rightarrow> style state
          | Some (Some v) \<Rightarrow> if v = [] then style state else Some (Some v))"
    "colors (apply_update state ?updates) =
         (case an_colors an of
            None \<Rightarrow> colors state
          | Some None \<Rightarrow> colors state
          | Some (Some v) \<Rightarrow> if v = [] then colors state else Some (Some v))"
    "budget (apply_update state ?updates) =
         (case an_budget an of
            None \<Rightarrow> budget state
          | Some None \<Rightarrow> budget state
          | Some (Some v) \<Rightarrow> if v = [] then budget state else Some (Some v))"
    by (simp_all add: sel truthy_seq_def get_none_def split: option.splits)
  note m = merge_parameters_materials[OF u]
  have mats: "(case an_materials an of
          None \<Rightarrow> materials (apply_update state ?updates) = materials state
        | Some None \<Rightarrow> materials (apply_update state ?updates) = materials state
        | Some (Some items) \<Rightarrow>
            if items = [] then materials (apply_update state ?updates) = materials state
            else \<exists>stored merged.
                   (materials state = Some (Some stored) \<or> materials state = None \<and> stored = [])
                   \<and> materials (apply_update state ?updates) = Some (Some merged)
                   \<and> (\<forall>k. map_of merged k =
                         (case map_of items k of
                            None \<Rightarrow> map_of stored k
                          | Some None \<Rightarrow> map_of stored k
                          | Some (Some v) \<Rightarrow> if v = [] then map_of stored k else Some v)))"
  proof (cases "truthy_seq (get_none (an_materials an))")
    case False
    with m have "materials (apply_update state ?updates) = materials state"
      by simp
    with False show ?thesis
      by (simp add: truthy_seq_def get_none_def split: option.splits)
  next
    case True
    then obtain items where items: "an_materials an = Some (Some items)" "items \<noteq> []"
      by (auto simp: truthy_seq_def get_none_def split: option.splits)
    from assms(3) have d: "distinct (map fst items)"
      by (simp add: items get_none_def get_or_def)
    from m True obtain stored where
      st: "get_or (materials state) (Some []) = Some stored"
      and mu: "materials u = Some (Some (dict_update stored (truthy_items items)))"
      by (auto simp: items get_none_def get_or_def)
    from st have s: "materials state = Some (Some stored) \<or> materials state = None \<and> stored = []"
      by (cases "materials state") (auto simp: get_or_def)
    have r: "materials (apply_update state ?updates)
               = Some (Some (dict_update stored (truthy_items items)))"
      by (simp add: mu)
    have "\<exists>stored merged.
            (materials state = Some (Some stored) \<or> materials state = None \<and> stored = [])
            \<and> materials (apply_update state ?updates) = Some (Some merged)
            \<and> (\<forall>k. map_of merged k =
                  (case map_of items k of
                     None \<Rightarrow> map_of stored k
                   | Some None \<Rightarrow> map_of stored k
                   | Some (Some v) \<Rightarrow> if v = [] then map_of stored k else Some v))"
      by (rule exI[of _ stored], rule exI[of _ "dict_update stored (truthy_items items)"])
         (intro conjI allI s r merged_materials[OF d])
    then show ?thesis
      by (simp only: items option.case if_False)
  qed
  show ?thesis
    by (rule exI[of _ ?updates]) (intro conjI run size fields mats)
qed

lemma first_design_sel [simp]:
  "messages first_design = Some [\<lparr>role = ''user'', content = ''cocina de 3 metros en L moderna''\<rparr>]"
  "linear_meters first_design = Some (Some (FloatNum 3))" "shape first_design = Some (Some ''L'')"
  "style first_design = Some (Some ''modern'')" "materials first_design = Some (Some [])"
  "colors first_design = Some (Some [])" "budget first_design = Some None"
  "current_image first_design = Some (Some ''aW1hZ2VuMQ=='')"
  "design_version first_design = Some 1"
  "design_history first_design =
     Some [\<lparr>version = 1,
            params = \<lparr>p_linear_meters = Some (FloatNum 3), p_shape = Some ''L'',
                      p_style = Some ''modern'', p_materials = Some []\<rparr>\<rparr>]"
  "action first_design = None" "needs_clarification first_design = None"
  "questions first_design = None" "response_text first_design = None"
  "artifacts first_design = None" "error first_design = None"
  by (simp_all add: first_design_def no_update_def)

lemma oak_design_sel:
  "messages oak_design = messages first_design"
  "shape oak_design = Some (Some ''L'')" "style oak_design = Some (Some ''modern'')"
  "materials oak_design = Some (Some [(''cabinets'', ''oak''), (''countertop'', ''marble'')])"
  by (simp_all add: oak_design_def)

text \<open>
  A stored design of shape L with oak cabinets and a marble countertop. An extraction with
  shape U, a granite countertop, \<^verbatim>\<open>null\<close> for the cabinets and the empty string for the
  backsplash sets U, leaves the style, changes the countertop, keeps the cabinets and adds
  no backsplash; an extraction with shape \<^verbatim>\<open>null\<close> and no materials leaves L and the two
  stored materials.
\<close>

theorem additive_merge_witness:
  "get_or (messages oak_design) [] \<noteq> []
   \<and> materials oak_design \<noteq> Some None
   \<and> distinct (map fst (get_or (get_none (an_materials shape_u_analysis)) []))
   \<and> distinct (map fst (get_or (get_none (an_materials shape_null_analysis)) []))
   \<and> (\<exists>updates merged.
        analyze_input (idle_services\<lparr>analyze_request := \<lambda>user_message ctx. Inr shape_u_analysis\<rparr>)
          oak_design = Inr updates
        \<and> shape (apply_update oak_design updates) = Some (Some ''U'')
        \<and> style (apply_update oak_design updates) = Some (Some ''modern'')
        \<and> materials (apply_update oak_design updates) = Some (Some merged)
        \<and> map_of merged ''cabinets'' = Some ''oak''
        \<and> map_of merged ''countertop'' = Some ''granite''
        \<and> map_of merged ''backsplash'' = None)
   \<and> (\<exists>updates.
        analyze_input (idle_services\<lparr>analyze_request := \<lambda>user_message ctx. Inr shape_null_analysis\<rparr>)
          oak_design = Inr updates
        \<and> shape (apply_update oak_design updates) = Some (Some ''L'')
        \<and> materials (apply_update oak_design updates)
            = Some (Some [(''cabinets'', ''oak''), (''countertop'', ''marble'')]))"
proof -
  have h1: "get_or (messages oak_design) [] \<noteq> []"
    by (simp add: oak_design_sel get_or_def)
  have h0: "materials oak_design \<noteq> Some None"
    by (simp add: oak_design_sel)
  have h2: "truthy_seq (get_none (an_materials an)) \<longrightarrow> materials oak_design \<noteq> Some None"
    for an :: analysis using h0 by simp
  have u: "an_shape shape_u_analysis = Some (Some ''U'')"
    "an_style shape_u_analysis = None"
    "an_materials shape_u_analysis =
       Some (Some [(''countertop'', Some ''granite''), (''cabinets'', None),
                   (''backsplash'', Some [])])"
    by (simp_all add: shape_u_analysis_def no_analysis_def)
  have n: "an_shape shape_null_analysis = Some None"
    "an_materials shape_null_analysis = None"
    by (simp_all add: shape_null_analysis_def no_analysis_def)
  have d1: "distinct (map fst (get_or (get_none (an_materials shape_u_analysis)) []))"
    by (simp add: u get_none_def get_or_def)
  have d2: "distinct (map fst (get_or (get_none (an_materials shape_null_analysis)) []))"
    by (simp add: n get_none_def get_or_def)
  from additive_merge[OF h1 h2 d1, of idle_services]
  have a: "\<exists>updates merged.
        analyze_input (idle_services\<lparr>analyze_request := \<lambda>user_message ctx. Inr shape_u_analysis\<rparr>)
          oak_design = Inr updates
        \<and> shape (apply_update oak_design updates) = Some (Some ''U'')
        \<and> style (apply_update oak_design updates) = Some (Some ''modern'')
        \<and> materials (apply_update oak_design updates) = Some (Some merged)
        \<and> map_of merged ''cabinets'' = Some ''oak''
        \<and> map_of merged ''countertop'' = Some ''granite''
        \<and> map_of merged ''backsplash'' = None"
  proof (elim exE conjE)
    fix updates
    assume r: "analyze_input
                 (idle_services\<lparr>analyze_request := \<lambda>user_message ctx. Inr shape_u_analysis\<rparr>)
                 oak_design = Inr updates"
      and s: "shape (apply_update oak_design updates) =
         (case an_shape shape_u_analysis of
            None \<Rightarrow> shape oak_design
          | Some None \<Rightarrow> shape oak_design
          | Some (Some v) \<Rightarrow> if v = [] then shape oak_design else Some (Some v))"
      and t: "style (apply_update oak_design updates) =
         (case an_style shape_u_analysis of
            None \<Rightarrow> style oak_design
          | Some None \<Rightarrow> style oak_design
          | Some (Some v) \<Rightarrow> if v = [] then style oak_design else Some (Some v))"
      and m: "(case an_materials shape_u_analysis of
          None \<Rightarrow> materials (apply_update oak_design updates) = materials oak_design
        | Some None \<Rightarrow> materials (apply_update oak_design updates) = materials oak_design
        | Some (Some items) \<Rightarrow>
            if items = [] then materials (apply_update oak_design updates) = materials oak_design
            else \<exists>stored merged.
                   (materials oak_design = Some (Some stored)
                      \<or> materials oak_design = None \<and> stored = [])
                   \<and> materials (apply_update oak_design updates) = Some (Some merged)
                   \<and> (\<forall>k. map_of merged k =
                         (case map_of items k of
                            None \<Rightarrow> map_of stored k
                          | Some None \<Rightarrow> map_of stored k
                          | Some (Some v) \<Rightarrow> if v = [] then map_of stored k else Some v)))"
    from s have s': "shape (apply_update oak_design updates) = Some (Some ''U'')"
      by (simp only: u option.case) simp
    from t have t': "style (apply_update oak_design updates) = Some (Some ''modern'')"
      by (simp only: u option.case oak_design_sel)
    from m obtain stored merged where
      st: "materials oak_design = Some (Some stored) \<or> materials oak_design = None \<and> stored = []"
      and me: "materials (apply_update oak_design updates) = Some (Some merged)"
      and k: "\<And>k. map_of merged k =
                 (case map_of [(''countertop'', Some ''granite''), (''cabinets'', None),
                               (''backsplash'', Some [])] k of
                    None \<Rightarrow> map_of stored k
                  | Some None \<Rightarrow> map_of stored k
                  | Some (Some v) \<Rightarrow> if v = [] then map_of stored k else Some v)"
      unfolding u option.case by (simp del: apply_update_sel) blast
    from st have stored: "stored = [(''cabinets'', ''oak''), (''countertop'', ''marble'')]"
      by (simp add: oak_design_sel)
    have "map_of merged ''cabinets'' = Some ''oak''"
      "map_of merged ''countertop'' = Some ''granite''"
      "map_of merged ''backsplash'' = None"
      by (simp_all add: k stored)
    with r s' t' me show ?thesis by blast
  qed
  from additive_merge[OF h1 h2 d2, of idle_services]
  have b: "\<exists>updates.
        analyze_input (idle_services\<lparr>analyze_request := \<lambda>user_message ctx. Inr shape_null_analysis\<rparr>)
          oak_design = Inr updates
        \<and> shape (apply_update oak_design updates) = Some (Some ''L'')
        \<and> materials (apply_update oak_design updates)
            = Some (Some [(''cabinets'', ''oak''), (''countertop'', ''marble'')])"
  proof (elim exE conjE)
    fix updates
    assume r: "analyze_input
                 (idle_services\<lparr>analyze_request := \<lambda>user_message ctx. Inr shape_null_analysis\<rparr>)
                 oak_design = Inr updates"
      and s: "shape (apply_update oak_design updates) =
         (case an_shape shape_null_analysis of
            None \<Rightarrow> shape oak_design
          | Some None \<Rightarrow> shape oak_design
          | Some (Some v) \<Rightarrow> if v = [] then shape oak_design else Some (Some v))"
      and m: "(case an_materials shape_null_analysis of
          None \<Rightarrow> materials (apply_update oak_design updates) = materials oak_design
        | Some None \<Rightarrow> materials (apply_update oak_design updates) = materials oak_design
        | Some (Some items) \<Rightarrow>
            if items = [] then materials (apply_update oak_design updates) = materials oak_design
            else \<exists>stored merged.
                   (materials oak_design = Some (Some stored)
                      \<or> materials oak_design = None \<and> stored = [])
                   \<and> materials (apply_update oak_design updates) = Some (Some merged)
                   \<and> (\<forall>k. map_of merged k =
                         (case map_of items k of
                            None \<Rightarrow> map_of stored k
                          | Some None \<Rightarrow> map_of stored k
                          | Some (Some v) \<Rightarrow> if v = [] then map_of stored k else Some v)))"
    from s have s': "shape (apply_update oak_design updates) = Some (Some ''L'')"
      by (simp only: n option.case oak_design_sel)
    from m have m': "materials (apply_update oak_design updates)
            = Some (Some [(''cabinets'', ''oak''), (''countertop'', ''marble'')])"
      by (simp only: n option.case oak_design_sel)
    from r s' m' show ?thesis by blast
  qed
  from h1 h0 d1 d2 a b show ?thesis by (intro conjI)
qed

section \<open>The steps of a turn\<close>

lemma analyze_input_answer:
  assumes "get_or (messages state) [] \<noteq> []"
      and "analyze_request env = (\<lambda>user_message ctx. Inr an)"
  shows "analyze_input env state =
     (case merge_parameters state an (analysis_updates an) of
        Inl e \<Rightarrow> Inl e
      | Inr updates \<Rightarrow> Inr (require_size state updates))"
  using assms by (simp add: analyze_input_def Let_def)

lemma require_size_flag:
  "needs_clarification (require_size state u) =
     (if get_none (action u) = Some ''generate''
         \<and> \<not> truthy_num (get_none (linear_meters u))
         \<and> \<not> truthy_num (get_none (linear_meters state))
      then Some True else needs_clarification u)"
  "questions (require_size state u) =
     (if get_none (action u) = Some ''generate''
         \<and> \<not> truthy_num (get_none (linear_meters u))
         \<and> \<not> truthy_num (get_none (linear_meters state))
      then Some (Some [size_question]) else questions u)"
  by (simp_all add: require_size_def)



lemma format_output_sel:
  "response_text (format_output s) = Some (get_or (response_text s) [])"
  "artifacts (format_output s) = Some (get_or (artifacts s) [])"
  "design_version (format_output s) = None" "current_image (format_output s) = None"
  "design_history (format_output s) = None" "error (format_output s) = None"
  "linear_meters (format_output s) = None" "shape (format_output s) = None"
  "style (format_output s) = None" "materials (format_output s) = None"
  "colors (format_output s) = None" "budget (format_output s) = None"
  "action (format_output s) = None" "needs_clarification (format_output s) = None"
  "questions (format_output s) = None" "messages (format_output s) = None"
  by (simp_all add: format_output_def)


section \<open>Clarification comes first\<close>





lemma analyze_input_cases:
  assumes "analyze_input env state = Inr u"
  shows "u = no_update\<lparr>error := Some (Some ''No message provided'')\<rparr>
       \<or> (\<exists>an m. merge_parameters state an (analysis_updates an) = Inr m
                 \<and> u = require_size state m)"
  using assms
  by (cases "get_or (messages state) [] = []")
     (auto simp: analyze_input_def Let_def split: sum.splits)

lemma analyze_input_keeps_design:
  assumes "analyze_input env state = Inr u"
  shows "design_version u = None" and "current_image u = None" and "design_history u = None"
    and "response_text u = None" and "artifacts u = None" and "messages u = None"
  using analyze_input_cases[OF assms] by (auto simp: merge_parameters_sel)

lemma generate_kitchen_image_answer:
  "generate_kitchen_image (env\<lparr>generate_image := \<lambda>request. r\<rparr>) meters shp sty mats cols
     = Inl KeyError
   \<or> generate_kitchen_image (env\<lparr>generate_image := \<lambda>request. r\<rparr>) meters shp sty mats cols
     = Inr r"
  by (simp add: generate_kitchen_image_def Let_def)

lemma generate_design_failure:
  assumes "generate_design (env\<lparr>generate_image := \<lambda>request. ImageFailure err\<rparr>) state
             \<noteq> Inl KeyError"
  shows "generate_design (env\<lparr>generate_image := \<lambda>request. ImageFailure err\<rparr>) state =
     Inr (no_update\<lparr>response_text := Some (generation_failed_text err),
                    artifacts := Some [],
                    error := Some (Some err)\<rparr>)"
  using assms
    generate_kitchen_image_answer[where env = env and r = "ImageFailure err"
      and meters = "get_or (linear_meters state) (Some (FloatNum 3))"
      and shp = "get_or (shape state) (Some ''L'')"
      and sty = "get_or (style state) (Some ''modern'')"
      and mats = "get_or (materials state) (Some default_materials)"
      and cols = "get_or (colors state) (Some [''white'', ''gray''])"]
  by (auto simp: generate_design_def Let_def)

lemma generate_design_no_image:
  assumes "generate_design (env\<lparr>generate_image := \<lambda>request. ImageSuccess []\<rparr>) state
             \<noteq> Inl KeyError"
  shows "generate_design (env\<lparr>generate_image := \<lambda>request. ImageSuccess []\<rparr>) state =
     Inr (no_update\<lparr>response_text := Some no_image_text,
                    artifacts := Some [],
                    error := Some (Some ''No images generated'')\<rparr>)"
  using assms
    generate_kitchen_image_answer[where env = env and r = "ImageSuccess []"
      and meters = "get_or (linear_meters state) (Some (FloatNum 3))"
      and shp = "get_or (shape state) (Some ''L'')"
      and sty = "get_or (style state) (Some ''modern'')"
      and mats = "get_or (materials state) (Some default_materials)"
      and cols = "get_or (colors state) (Some [''white'', ''gray''])"]
  by (auto simp: generate_design_def Let_def)

lemma invoke_graph_generate:
  assumes "analyze_input env state = Inr updates"
      and "route_action (apply_update state updates) = ''generate''"
      and "generate_design env (apply_update state updates) = Inr produced"
  shows "invoke_graph env state =
     Inr (''generate'',
          apply_update (apply_update (apply_update state updates) produced)
            (format_output (apply_update (apply_update state updates) produced)))"
  using assms by (simp add: invoke_graph_def Let_def branch_node_def)

section \<open>Failure of the image generation\<close>

text \<open>
  The two texts of a failed generation, byte by byte: the first begins with
  \<^verbatim>\<open>Lo siento\<close> and carries the error of the service, the second is fixed.
\<close>

lemma generation_failed_text_bytes:
  "generation_failed_text err =
     ''Lo siento, hubo un problema al generar la imagen: '' @ err
       @ ''. '' @ [CHR 0xC2, CHR 0xBF] @ ''Podr'' @ [CHR 0xC3, CHR 0xAD]
       @ ''as intentarlo de nuevo?''"
  "no_image_text = ''No se pudo generar la imagen. Por favor intenta de nuevo.''"
  by (simp_all add: generation_failed_text_def no_image_text_def inv_question_def i_acute_def)

text \<open>
  C8. In a turn that takes the generate branch and reaches the Image Service, when the
  service reports a failure or returns no image, the turn's result has as its response
  text the apology of the case (for a reported failure \<^verbatim>\<open>Lo siento, hubo un problema al
  generar la imagen:\<close>, the error, and the request to try again; for no image
  \<^verbatim>\<open>No se pudo generar la imagen. Por favor intenta de nuevo.\<close>), an empty artifact list
  and the error entry set, and the design state is as before the turn:
  \<^verbatim>\<open>design_version\<close>, \<^verbatim>\<open>current_image\<close> and \<^verbatim>\<open>design_history\<close> keep their values.
  (\<^verbatim>\<open>generate_kitchen_image\<close> raises \<^verbatim>\<open>KeyError\<close> before the service is called when the
  materials lack one of the three keys; that is the only case excluded.)
\<close>

theorem generation_failure:
  assumes "r = ImageFailure err \<or> r = ImageSuccess []"
      and "analyze_input (env\<lparr>generate_image := \<lambda>request. r\<rparr>) state = Inr updates"
      and "route_action (apply_update state updates) = ''generate''"
      and "generate_design (env\<lparr>generate_image := \<lambda>request. r\<rparr>) (apply_update state updates)
             \<noteq> Inl KeyError"
  shows "\<exists>final.
     invoke_graph (env\<lparr>generate_image := \<lambda>request. r\<rparr>) state = Inr (''generate'', final)
     \<and> response_text final =
         Some (case r of
                 ImageFailure e \<Rightarrow>
                   ''Lo siento, hubo un problema al generar la imagen: '' @ e
                     @ ''. '' @ [CHR 0xC2, CHR 0xBF] @ ''Podr'' @ [CHR 0xC3, CHR 0xAD]
                     @ ''as intentarlo de nuevo?''
               | ImageSuccess images \<Rightarrow>
                   ''No se pudo generar la imagen. Por favor intenta de nuevo.'')
     \<and> artifacts final = Some []
     \<and> error final =
         Some (Some (case r of ImageFailure e \<Rightarrow> e
                     | ImageSuccess images \<Rightarrow> ''No images generated''))
     \<and> design_version final = design_version state
     \<and> current_image final = current_image state
     \<and> design_history final = design_history state"
proof -
  let ?env = "env\<lparr>generate_image := \<lambda>request. r\<rparr>"
  let ?s1 = "apply_update state updates"
  let ?reply = "case r of
                  ImageFailure e \<Rightarrow>
                    ''Lo siento, hubo un problema al generar la imagen: '' @ e
                      @ ''. '' @ [CHR 0xC2, CHR 0xBF] @ ''Podr'' @ [CHR 0xC3, CHR 0xAD]
                      @ ''as intentarlo de nuevo?''
                | ImageSuccess images \<Rightarrow>
                    ''No se pudo generar la imagen. Por favor intenta de nuevo.''"
  let ?apology = "no_update
      \<lparr>response_text := Some ?reply,
       artifacts := Some [],
       error := Some (Some (case r of ImageFailure e \<Rightarrow> e
                            | ImageSuccess images \<Rightarrow> ''No images generated''))\<rparr>"
  have produced: "generate_design ?env ?s1 = Inr ?apology"
    using assms(1,4) generate_design_failure[where env = env and err = err and state = ?s1]
      generate_design_no_image[where env = env and state = ?s1]
    by (auto simp: generation_failed_text_bytes)
  note keeps = analyze_input_keeps_design[OF assms(2)]
  let ?final = "apply_update (apply_update ?s1 ?apology)
                  (format_output (apply_update ?s1 ?apology))"
  have "invoke_graph ?env state = Inr (''generate'', ?final)"
    by (rule invoke_graph_generate[OF assms(2,3) produced])
  moreover have "response_text ?final = Some ?reply"
    by (simp add: format_output_sel get_or_def)
  moreover have "artifacts ?final = Some []"
    by (simp add: format_output_sel get_or_def)
  moreover have "error ?final =
         Some (Some (case r of ImageFailure e \<Rightarrow> e
                     | ImageSuccess images \<Rightarrow> ''No images generated''))"
    by (simp add: format_output_sel)
  moreover have "design_version ?final = design_version state"
    and "current_image ?final = current_image state"
    and "design_history ?final = design_history state"
    by (simp_all add: format_output_sel keeps)
  ultimately show ?thesis by blast
qed

text \<open>A request to generate again after a first design, with a service that fails.\<close>

theorem generation_failure_witness:
  "(ImageFailure ''quota exceeded'' = ImageFailure ''quota exceeded''
      \<or> ImageFailure ''quota exceeded'' = ImageSuccess [])
   \<and> (\<exists>updates.
        analyze_input
          (quota_services\<lparr>generate_image := \<lambda>request. ImageFailure ''quota exceeded''\<rparr>)
          first_design = Inr updates
        \<and> route_action (apply_update first_design updates) = ''generate''
        \<and> generate_design
            (quota_services\<lparr>generate_image := \<lambda>request. ImageFailure ''quota exceeded''\<rparr>)
            (apply_update first_design updates) \<noteq> Inl KeyError)
   \<and> (\<exists>final.
        invoke_graph
          (quota_services\<lparr>generate_image := \<lambda>request. ImageFailure ''quota exceeded''\<rparr>)
          first_design = Inr (''generate'', final)
        \<and> response_text final =
            Some (''Lo siento, hubo un problema al generar la imagen: quota exceeded. ''
                  @ [CHR 0xC2, CHR 0xBF] @ ''Podr'' @ [CHR 0xC3, CHR 0xAD]
                  @ ''as intentarlo de nuevo?'')
        \<and> artifacts final = Some []
        \<and> error final = Some (Some ''quota exceeded'')
        \<and> design_version final = Some 1
        \<and> current_image final = Some (Some ''aW1hZ2VuMQ=='')
        \<and> map version (get_or (design_history final) []) = [1])"
proof -
  let ?env = "quota_services\<lparr>generate_image := \<lambda>request. ImageFailure ''quota exceeded''\<rparr>"
  have h1: "ImageFailure ''quota exceeded'' = ImageFailure ''quota exceeded''
      \<or> ImageFailure ''quota exceeded'' = ImageSuccess []"
    by simp
  have msgs: "get_or (messages first_design) [] \<noteq> []"
    by (simp add: get_or_def)
  have answer: "analyze_request ?env = (\<lambda>user_message ctx. Inr generate_again)"
    by (simp add: quota_services_def fixed_services_def)
  have an: "an_action generate_again = Some (Some ''generate'')"
    "an_linear_meters generate_again = None" "an_materials generate_again = None"
    by (simp_all add: generate_again_def no_analysis_def)
  have "truthy_seq (get_none (an_materials generate_again))
          \<longrightarrow> materials first_design \<noteq> Some None"
    by simp
  from merge_parameters_returns[OF this] obtain u
    where u: "merge_parameters first_design generate_again (analysis_updates generate_again)
                = Inr u"
    by blast
  let ?updates = "require_size first_design u"
  let ?s1 = "apply_update first_design ?updates"
  note sel = merge_parameters_sel[OF u]
  have h2: "analyze_input ?env first_design = Inr ?updates"
    by (simp add: analyze_input_answer[OF msgs answer] u)
  have flag: "needs_clarification ?s1 = Some False"
    by (simp add: require_size_flag sel an get_none_def get_or_def truthy_num_def)
  have act: "action ?s1 = Some (Some ''generate'')"
    by (simp add: sel an get_or_def)
  have h3: "route_action ?s1 = ''generate''"
    by (simp add: route_action_def flag act truthy_bool_def get_or_def Let_def
          del: apply_update_sel require_size_sel)
  have mats: "materials ?s1 = Some (Some [])"
    using merge_parameters_materials[OF u]
    by (simp add: an get_none_def truthy_seq_def)
  have h4: "generate_design ?env ?s1 \<noteq> Inl KeyError"
    by (simp add: generate_design_def generate_kitchen_image_def Let_def mats get_or_def
          truthy_seq_def tool_default_materials_def del: apply_update_sel require_size_sel)
  from generation_failure[OF h1 h2 h3 h4]
  have b: "\<exists>final. invoke_graph ?env first_design = Inr (''generate'', final)
        \<and> response_text final =
            Some (''Lo siento, hubo un problema al generar la imagen: quota exceeded. ''
                  @ [CHR 0xC2, CHR 0xBF] @ ''Podr'' @ [CHR 0xC3, CHR 0xAD]
                  @ ''as intentarlo de nuevo?'')
        \<and> artifacts final = Some []
        \<and> error final = Some (Some ''quota exceeded'')
        \<and> design_version final = Some 1
        \<and> current_image final = Some (Some ''aW1hZ2VuMQ=='')
        \<and> map version (get_or (design_history final) []) = [1]"
    by (elim exE conjE) (rule_tac x = final in exI, simp add: get_or_def)
  from h2 h3 h4 have a: "\<exists>updates. analyze_input ?env first_design = Inr updates
        \<and> route_action (apply_update first_design updates) = ''generate''
        \<and> generate_design ?env (apply_update first_design updates) \<noteq> Inl KeyError"
    by blast
  from h1 a b show ?thesis by (intro conjI)
qed

lemma apply_update_error_only:
  "apply_update state (no_update\<lparr>error := Some e\<rparr>) = state\<lparr>error := Some e\<rparr>"
  by (simp add: apply_update_def no_update_def)

lemma analyze_input_no_message:
  "get_or (messages state) [] = [] \<Longrightarrow>
     analyze_input env state = Inr (no_update\<lparr>error := Some (Some ''No message provided'')\<rparr>)"
  by (simp add: analyze_input_def Let_def)

lemma route_action_error [simp]: "route_action (state\<lparr>error := e\<rparr>) = route_action state"
  by (simp add: route_action_def)

lemma generate_response_no_message:
  "get_or (messages state) [] = [] \<Longrightarrow>
     generate_response env state = Inr (no_update\<lparr>response_text := Some greeting\<rparr>)"
  by (simp add: generate_response_def Let_def)

lemma greeting_final:
  "apply_update (apply_update s (no_update\<lparr>response_text := Some g\<rparr>))
     (format_output (apply_update s (no_update\<lparr>response_text := Some g\<rparr>)))
   = s\<lparr>response_text := Some g, artifacts := Some (get_or (artifacts s) [])\<rparr>"
  by (simp add: apply_update_def format_output_def no_update_def get_or_def)

section \<open>A turn without a message\<close>

text \<open>
  C4, as the code has it. In a turn whose message list is empty the analysis returns only
  the error \<^verbatim>\<open>No message provided\<close>: the classifier is not called and no parameter,
  action or flag of the state changes. The turn is not rejected: it goes on with the one
  branch that \<^verbatim>\<open>_route_action\<close> selects from the state as it was stored, and when that
  branch is the conversational one the reply is the fixed greeting, with no call to the
  Reasoning Service.
\<close>

theorem empty_message_list:
  assumes "get_or (messages state) [] = []"
  shows "analyze_input env state
           = Inr (no_update\<lparr>error := Some (Some ''No message provided'')\<rparr>)
     \<and> invoke_graph env state =
         (case branch_node env (route_action state)
                 (state\<lparr>error := Some (Some ''No message provided'')\<rparr>) of
            Inl e \<Rightarrow> Inl e
          | Inr produced \<Rightarrow>
              Inr (route_action state,
                   apply_update
                     (apply_update (state\<lparr>error := Some (Some ''No message provided'')\<rparr>)
                        produced)
                     (format_output
                        (apply_update (state\<lparr>error := Some (Some ''No message provided'')\<rparr>)
                           produced))))
     \<and> (route_action state = ''respond'' \<longrightarrow>
          invoke_graph env state =
            Inr (''respond'',
                 state\<lparr>error := Some (Some ''No message provided''),
                       response_text := Some greeting,
                       artifacts := Some (get_or (artifacts state) [])\<rparr>))"
proof -
  let ?s1 = "state\<lparr>error := Some (Some ''No message provided'')\<rparr>"
  note a = analyze_input_no_message[OF assms, of env]
  have g: "invoke_graph env state =
         (case branch_node env (route_action state) ?s1 of
            Inl e \<Rightarrow> Inl e
          | Inr produced \<Rightarrow>
              Inr (route_action state,
                   apply_update (apply_update ?s1 produced)
                     (format_output (apply_update ?s1 produced))))"
    by (simp add: invoke_graph_def a apply_update_error_only Let_def split: sum.splits)
  have r: "route_action state = ''respond'' \<longrightarrow>
          invoke_graph env state =
            Inr (''respond'',
                 state\<lparr>error := Some (Some ''No message provided''),
                       response_text := Some greeting,
                       artifacts := Some (get_or (artifacts state) [])\<rparr>)"
  proof
    assume rt: "route_action state = ''respond''"
    have m: "get_or (messages ?s1) [] = []"
      using assms by simp
    have "branch_node env ''respond'' ?s1 = Inr (no_update\<lparr>response_text := Some greeting\<rparr>)"
      by (simp add: branch_node_def generate_response_no_message[OF m])
    then show "invoke_graph env state =
            Inr (''respond'',
                 state\<lparr>error := Some (Some ''No message provided''),
                       response_text := Some greeting,
                       artifacts := Some (get_or (artifacts state) [])\<rparr>)"
      unfolding g rt by (simp add: greeting_final)
  qed
  from a g r show ?thesis by (intro conjI)
qed

text \<open>A cached state with its message list emptied.\<close>

theorem empty_message_list_witness:
  "get_or (messages silent_turn) [] = []
   \<and> route_action silent_turn = ''respond''
   \<and> invoke_graph idle_services silent_turn =
       Inr (''respond'',
            silent_turn\<lparr>error := Some (Some ''No message provided''),
                        response_text := Some greeting,
                        artifacts := Some []\<rparr>)"
proof -
  have h: "get_or (messages silent_turn) [] = []"
    by (simp add: silent_turn_def get_or_def)
  have r: "route_action silent_turn = ''respond''"
    by (simp add: route_action_def silent_turn_def truthy_bool_def get_or_def)
  have e: "get_or (artifacts silent_turn) [] = []"
    by (simp add: silent_turn_def get_or_def)
  from empty_message_list[OF h, of idle_services]
  have "route_action silent_turn = ''respond'' \<longrightarrow>
          invoke_graph idle_services silent_turn =
            Inr (''respond'',
                 silent_turn\<lparr>error := Some (Some ''No message provided''),
                             response_text := Some greeting,
                             artifacts := Some (get_or (artifacts silent_turn) [])\<rparr>)"
    by (elim conjE)
  with r e
  have "invoke_graph idle_services silent_turn =
       Inr (''respond'',
            silent_turn\<lparr>error := Some (Some ''No message provided''),
                        response_text := Some greeting,
                        artifacts := Some []\<rparr>)"
    by simp
  with h r show ?thesis by (intro conjI)
qed

text \<open>
  The claim as stated fails on the fresh state, whose message list is empty: the turn
  returns normally, through the conversational branch, with the greeting.
\<close>

theorem empty_message_list_runs_a_branch:
  "get_or (messages (initial_state ''u1'' ''c1'')) [] = []
   \<and> invoke_graph idle_services (initial_state ''u1'' ''c1'') =
       Inr (''respond'',
            (initial_state ''u1'' ''c1'')
              \<lparr>error := Some (Some ''No message provided''),
               response_text := Some greeting\<rparr>)"
proof -
  let ?s = "initial_state ''u1'' ''c1''"
  let ?s1 = "?s\<lparr>error := Some (Some ''No message provided'')\<rparr>"
  have m: "get_or (messages ?s) [] = []"
    by (simp add: initial_state_def get_or_def)
  have m1: "get_or (messages ?s1) [] = []"
    using m by simp
  have a: "analyze_input idle_services ?s
             = Inr (no_update\<lparr>error := Some (Some ''No message provided'')\<rparr>)"
    by (rule analyze_input_no_message[OF m])
  have r: "route_action ?s1 = ''respond''"
    by (simp add: route_action_def initial_state_def truthy_bool_def get_or_def)
  have b: "branch_node idle_services ''respond'' ?s1
             = Inr (no_update\<lparr>response_text := Some greeting\<rparr>)"
    by (simp add: branch_node_def generate_response_no_message[OF m1])
  have "invoke_graph idle_services ?s =
       Inr (''respond'', ?s1\<lparr>response_text := Some greeting,
                               artifacts := Some (get_or (artifacts ?s1) [])\<rparr>)"
    unfolding invoke_graph_def a
    by (simp add: apply_update_error_only Let_def r b greeting_final del: route_action_error)
  moreover have "?s1\<lparr>response_text := Some greeting,
                      artifacts := Some (get_or (artifacts ?s1) [])\<rparr>
      = ?s\<lparr>error := Some (Some ''No message provided''), response_text := Some greeting\<rparr>"
    by (simp add: initial_state_def get_or_def)
  ultimately show ?thesis using m by simp
qed

section \<open>The specification document\<close>

lemma medium_band:
  "get_or (map_of cost_ranges ''medium'') ''$30,000 - $50,000 MXN'' = ''$25,000 - $45,000 MXN''"
  by (simp add: cost_ranges_def get_or_def)

lemma generate_specs_cost_band:
  assumes "generate_specs env meters shp sty mats = Inr doc"
  shows "\<exists>head. doc = join nl (head @ cost_estimate_section ''$25,000 - $45,000 MXN''
                                @ [[], specs_note])"
proof -
  from assms obtain lm where lm: "meters = Some lm"
    by (cases meters) (simp_all add: generate_specs_def)
  from assms obtain x where fx: "float_of_number lm = Inr x"
    unfolding lm by (cases "float_of_number lm") (auto simp: generate_specs_def)
  from assms obtain modules s60 s40 where pm: "pack_modules x = Inr (modules, s60, s40)"
    unfolding lm by (cases "pack_modules x") (auto simp: generate_specs_def fx)
  from assms obtain ms where ms: "mats = Some ms"
    unfolding lm by (cases mats) (simp_all add: generate_specs_def fx pm)
  from assms
  have d: "doc = join nl ((specs_head (num_str env lm) (str_opt shp) ms
                          @ specs_modules modules)
                    @ cost_estimate_section ''$25,000 - $45,000 MXN''
                    @ [[], specs_note])"
    by (simp add: generate_specs_def lm fx pm ms medium_band)
  show ?thesis
    by (rule exI[of _ "specs_head (num_str env lm) (str_opt shp) ms @ specs_modules modules"])
       (rule d)
qed

lemma generate_specs_3:
  "generate_specs env (Some (FloatNum 3)) shp sty (Some ms) =
     Inr (join nl
       (specs_head (num_str env (FloatNum 3)) (str_opt shp) ms
        @ specs_modules [module_sink, module_cooktop, module_fridge, module_storage 1 ''60cm'']
        @ cost_estimate_section ''$25,000 - $45,000 MXN''
        @ [[], specs_note]))"
  by (simp add: generate_specs_def float_of_number_def pack_modules_3 medium_band)





text \<open>
  The document prints the size as Python prints the number: the int 3 and the float 3.0,
  which JSON tells apart, give \<^verbatim>\<open>3m\<close> and \<^verbatim>\<open>3.0m\<close>, with the same module distribution.
\<close>

lemma float_of_number_3: "float_of_number (IntNum 3) = Inr 3"
  by (simp add: float_of_number_def float_of_int_def round_eval)

lemma specs_print_the_number:
  "generate_specs idle_services (Some (IntNum 3)) shp sty (Some ms)
     = Inr (join nl
         (specs_head ''3'' (str_opt shp) ms
          @ specs_modules [module_sink, module_cooktop, module_fridge, module_storage 1 ''60cm'']
          @ cost_estimate_section ''$25,000 - $45,000 MXN''
          @ [[], specs_note]))"
  "generate_specs idle_services (Some (FloatNum 3)) shp sty (Some ms)
     = Inr (join nl
         (specs_head ''3.0'' (str_opt shp) ms
          @ specs_modules [module_sink, module_cooktop, module_fridge, module_storage 1 ''60cm'']
          @ cost_estimate_section ''$25,000 - $45,000 MXN''
          @ [[], specs_note]))"
proof -
  have d: "digits 3 = ''3''"
    by (simp add: digits.simps[of 3])
  show "generate_specs idle_services (Some (IntNum 3)) shp sty (Some ms)
     = Inr (join nl
         (specs_head ''3'' (str_opt shp) ms
          @ specs_modules [module_sink, module_cooktop, module_fridge, module_storage 1 ''60cm'']
          @ cost_estimate_section ''$25,000 - $45,000 MXN''
          @ [[], specs_note]))"
    by (simp add: generate_specs_def float_of_number_3 pack_modules_3 medium_band
          num_str_def str_int_def d)
  show "generate_specs idle_services (Some (FloatNum 3)) shp sty (Some ms)
     = Inr (join nl
         (specs_head ''3.0'' (str_opt shp) ms
          @ specs_modules [module_sink, module_cooktop, module_fridge, module_storage 1 ''60cm'']
          @ cost_estimate_section ''$25,000 - $45,000 MXN''
          @ [[], specs_note]))"
    by (simp add: generate_specs_3 num_str_def idle_services_def fixed_services_def
          str_int_def d)
qed

text \<open>
  The document is a function of the size, the shape and the three materials it prints;
  the style is not read.
\<close>

lemma specs_same_document:
  assumes "map_of mats ''cabinets'' = map_of mats' ''cabinets''"
      and "map_of mats ''countertop'' = map_of mats' ''countertop''"
      and "map_of mats ''backsplash'' = map_of mats' ''backsplash''"
  shows "generate_specs env meters shp sty (Some mats)
           = generate_specs env meters shp sty' (Some mats')"
proof -
  have "specs_head a b mats = specs_head a b mats'" for a b
    using assms by (simp add: specs_head_def)
  then show ?thesis
    by (simp add: generate_specs_def split: option.splits sum.splits prod.splits)
qed




section \<open>Generation and edit\<close>

lemma generate_design_success:
  assumes "generate_kitchen_image env (get_or (linear_meters state) (Some (FloatNum 3)))
             (get_or (shape state) (Some ''L'')) (get_or (style state) (Some ''modern''))
             (get_or (materials state) (Some default_materials))
             (get_or (colors state) (Some [''white'', ''gray''])) = Inr (ImageSuccess (img # rest))"
      and "generate_specs env (get_or (linear_meters state) (Some (FloatNum 3)))
             (get_or (shape state) (Some ''L'')) (get_or (style state) (Some ''modern''))
             (get_or (materials state) (Some default_materials)) = Inr specs"
      and "get_or (colors state) (Some [''white'', ''gray'']) = Some cs"
  shows "generate_design env state =
       Inr (no_update
         \<lparr>response_text :=
            Some (design_text (get_or (design_version state) 0 + 1)
                    (str_opt (get_or (style state) (Some ''modern'')))
                    (shape_display (get_or (shape state) (Some ''L'')))
                    (case get_or (linear_meters state) (Some (FloatNum 3)) of
                       None \<Rightarrow> ''None'' | Some x \<Rightarrow> num_str env x)
                    (get_or (get_or (materials state) (Some default_materials)) []) cs),
          artifacts :=
            Some [\<lparr>art_type = ''image'',
                   title = design_title (get_or (design_version state) 0 + 1),
                   art_content = None,
                   image_data = Some img,
                   metadata =
                     [(''linear_meters'', opt_num (get_or (linear_meters state) (Some (FloatNum 3)))),
                      (''shape'', opt_str (get_or (shape state) (Some ''L''))),
                      (''style'', opt_str (get_or (style state) (Some ''modern''))),
                      (''version'', PyInt (get_or (design_version state) 0 + 1))]\<rparr>,
                  \<lparr>art_type = ''specs'',
                   title = ''Especificaciones T'' @ e_acute @ ''cnicas'',
                   art_content = Some specs,
                   image_data = None,
                   metadata = []\<rparr>],
          current_image := Some (Some img),
          design_version := Some (get_or (design_version state) 0 + 1),
          design_history :=
            Some (get_or (design_history state) []
                  @ [\<lparr>version = get_or (design_version state) 0 + 1,
                      params =
                        \<lparr>p_linear_meters = get_or (linear_meters state) (Some (FloatNum 3)),
                         p_shape = get_or (shape state) (Some ''L''),
                         p_style = get_or (style state) (Some ''modern''),
                         p_materials = get_or (materials state) (Some default_materials)\<rparr>\<rparr>])\<rparr>)"
  by (simp add: generate_design_def Let_def assms(1,2)) (simp add: assms(3))

lemma generate_design_no_size:
  assumes "generate_kitchen_image env None
             (get_or (shape state) (Some ''L'')) (get_or (style state) (Some ''modern''))
             (get_or (materials state) (Some default_materials))
             (get_or (colors state) (Some [''white'', ''gray''])) = Inr (ImageSuccess (img # rest))"
      and "linear_meters state = Some None"
  shows "generate_design env state = Inl TypeError"
  using assms by (simp add: generate_design_def Let_def generate_specs_def get_or_def)


lemma edit_analysis_sel [simp]:
  "an_action edit_analysis = Some (Some ''edit'')" "an_linear_meters edit_analysis = None"
  "an_shape edit_analysis = None" "an_style edit_analysis = None"
  "an_materials edit_analysis = None" "an_colors edit_analysis = None"
  "an_budget edit_analysis = None" "questions_to_ask edit_analysis = None"
  by (simp_all add: edit_analysis_def no_analysis_def)

lemma analyze_input_edit:
  assumes "get_or (messages state) [] \<noteq> []"
      and "analyze_request env = (\<lambda>user_message ctx. Inr edit_analysis)"
  shows "analyze_input env state =
     Inr (no_update\<lparr>action := Some (Some ''edit''), needs_clarification := Some False,
                    questions := Some (Some [])\<rparr>)"
  by (simp add: analyze_input_answer[OF assms] merge_parameters_def merge_materials_def
        merge_size_shape_style_def merge_colors_budget_def require_size_def
        analysis_updates_def get_none_def get_or_def truthy_num_def truthy_seq_def)

lemma apply_update_edit:
  "apply_update state
     (no_update\<lparr>action := Some a, needs_clarification := Some n, questions := Some q\<rparr>)
   = state\<lparr>action := Some a, needs_clarification := Some n, questions := Some q\<rparr>"
  by (simp add: apply_update_def no_update_def)

lemma turn_with_edit_request:
  assumes "get_or (messages state) [] \<noteq> []"
      and "analyze_request env = (\<lambda>user_message ctx. Inr edit_analysis)"
  shows "invoke_graph env state =
     (case edit_design env
             (state\<lparr>action := Some (Some ''edit''), needs_clarification := Some False,
                    questions := Some (Some [])\<rparr>) of
        Inl e \<Rightarrow> Inl e
      | Inr produced \<Rightarrow>
          Inr (''edit'',
               apply_update
                 (apply_update
                    (state\<lparr>action := Some (Some ''edit''), needs_clarification := Some False,
                           questions := Some (Some [])\<rparr>) produced)
                 (format_output
                    (apply_update
                       (state\<lparr>action := Some (Some ''edit''), needs_clarification := Some False,
                              questions := Some (Some [])\<rparr>) produced))))"
  by (simp add: invoke_graph_def analyze_input_edit[OF assms] apply_update_edit Let_def
        route_action_def truthy_bool_def get_or_def branch_node_def split: sum.splits)

lemma run_cached:
  "st \<noteq> no_update \<Longrightarrow>
   run env user_message uid cid (Some st) =
     (case invoke_graph env
             (st\<lparr>messages := Some (get_or (messages st) []
                                      @ [\<lparr>role = ''user'', content = user_message\<rparr>])\<rparr>) of
        Inl e \<Rightarrow> Inl e
      | Inr (branch, result) \<Rightarrow>
          Inr \<lparr>out_response_text = get_or (response_text result) [],
               out_artifacts = get_or (artifacts result) [],
               out_state =
                 no_update
                   \<lparr>linear_meters := Some (get_none (linear_meters result)),
                    shape := Some (get_none (shape result)),
                    style := Some (get_none (style result)),
                    materials := Some (get_none (materials result)),
                    colors := Some (get_none (colors result)),
                    budget := Some (get_none (budget result)),
                    current_image := Some (get_none (current_image result)),
                    design_version := design_version result,
                    design_history := design_history result,
                    messages := messages result\<rparr>\<rparr>)"
  by (simp add: run_def Let_def)

lemma run_fresh:
  "run env user_message uid cid None =
     (case invoke_graph env
             ((initial_state uid cid)
                \<lparr>messages := Some [\<lparr>role = ''user'', content = user_message\<rparr>]\<rparr>) of
        Inl e \<Rightarrow> Inl e
      | Inr (branch, result) \<Rightarrow>
          Inr \<lparr>out_response_text = get_or (response_text result) [],
               out_artifacts = get_or (artifacts result) [],
               out_state =
                 no_update
                   \<lparr>linear_meters := Some (get_none (linear_meters result)),
                    shape := Some (get_none (shape result)),
                    style := Some (get_none (style result)),
                    materials := Some (get_none (materials result)),
                    colors := Some (get_none (colors result)),
                    budget := Some (get_none (budget result)),
                    current_image := Some (get_none (current_image result)),
                    design_version := design_version result,
                    design_history := design_history result,
                    messages := messages result\<rparr>\<rparr>)"
  by (simp add: run_def Let_def initial_state_def get_or_def)

lemma first_design_not_empty: "first_design \<noteq> no_update"
  by (simp add: first_design_def no_update_def)


lemma edit_design_answer:
  assumes "get_none (current_image state) = Some img" and "img \<noteq> []"
  shows "edit_design (fixed_services an generated edited) state =
     (case edited of
        ImageFailure err \<Rightarrow>
          Inr (no_update\<lparr>response_text := Some regenerating_text,
                         artifacts := Some [],
                         action := Some (Some ''generate'')\<rparr>)
      | ImageSuccess [] \<Rightarrow> generate_design (fixed_services an generated edited) state
      | ImageSuccess (image_base64 # rest) \<Rightarrow>
          Inr (no_update
            \<lparr>response_text := Some (edit_text (get_or (design_version state) 0 + 1)),
             artifacts :=
               Some [\<lparr>art_type = ''image'',
                      title = design_title (get_or (design_version state) 0 + 1),
                      art_content = None,
                      image_data = Some image_base64,
                      metadata = [(''version'', PyInt (get_or (design_version state) 0 + 1)),
                                  (''edit'', PyBool True)]\<rparr>],
             current_image := Some (Some image_base64),
             design_version := Some (get_or (design_version state) 0 + 1)\<rparr>))"
  using assms
  by (simp add: edit_design_def edit_kitchen_image_def fixed_services_def Let_def
        split: image_result.splits list.splits)

lemma edit_design_without_image:
  "get_none (current_image state) = None \<Longrightarrow> edit_design env state = generate_design env state"
  by (simp add: edit_design_def)

lemma edit_turn_sel [simp]:
  "messages edit_turn = Some [\<lparr>role = ''user'', content = ''cocina de 3 metros en L moderna''\<rparr>,
                              \<lparr>role = ''user'', content = ''hazla azul''\<rparr>]"
  "linear_meters edit_turn = Some (Some (FloatNum 3))" "shape edit_turn = Some (Some ''L'')"
  "style edit_turn = Some (Some ''modern'')" "materials edit_turn = Some (Some [])"
  "colors edit_turn = Some (Some [])" "budget edit_turn = Some None"
  "current_image edit_turn = Some (Some ''aW1hZ2VuMQ=='')"
  "design_version edit_turn = Some 1"
  "design_history edit_turn =
     Some [\<lparr>version = 1,
            params = \<lparr>p_linear_meters = Some (FloatNum 3), p_shape = Some ''L'',
                      p_style = Some ''modern'', p_materials = Some []\<rparr>\<rparr>]"
  "response_text edit_turn = None" "artifacts edit_turn = None" "error edit_turn = None"
  by (simp_all add: edit_turn_def)

lemma run_edit_turn:
  "run env ''hazla azul'' uid cid (Some first_design) =
     (case invoke_graph env edit_turn of
        Inl e \<Rightarrow> Inl e
      | Inr (branch, result) \<Rightarrow>
          Inr \<lparr>out_response_text = get_or (response_text result) [],
               out_artifacts = get_or (artifacts result) [],
               out_state =
                 no_update
                   \<lparr>linear_meters := Some (get_none (linear_meters result)),
                    shape := Some (get_none (shape result)),
                    style := Some (get_none (style result)),
                    materials := Some (get_none (materials result)),
                    colors := Some (get_none (colors result)),
                    budget := Some (get_none (budget result)),
                    current_image := Some (get_none (current_image result)),
                    design_version := design_version result,
                    design_history := design_history result,
                    messages := messages result\<rparr>\<rparr>)"
  by (simp add: run_cached[OF first_design_not_empty] edit_turn_def get_or_def)

lemma edit_turn_request:
  assumes "analyze_request env = (\<lambda>user_message ctx. Inr edit_analysis)"
  shows "invoke_graph env edit_turn =
     (case edit_design env
             (edit_turn\<lparr>action := Some (Some ''edit''), needs_clarification := Some False,
                        questions := Some (Some [])\<rparr>) of
        Inl e \<Rightarrow> Inl e
      | Inr produced \<Rightarrow>
          Inr (''edit'',
               apply_update
                 (apply_update
                    (edit_turn\<lparr>action := Some (Some ''edit''), needs_clarification := Some False,
                               questions := Some (Some [])\<rparr>) produced)
                 (format_output
                    (apply_update
                       (edit_turn\<lparr>action := Some (Some ''edit''),
                                  needs_clarification := Some False,
                                  questions := Some (Some [])\<rparr>) produced))))"
proof -
  have "get_or (messages edit_turn) [] \<noteq> []"
    by (simp add: get_or_def)
  from turn_with_edit_request[OF this assms] show ?thesis .
qed

text \<open>
  C1 at a concrete turn. After a first design (version 1, one history entry), a turn whose
  edit succeeds with one image returns version 2 and still one history entry: the edit
  branch increments the version and appends nothing.
\<close>

theorem edit_skips_history:
  "\<exists>result.
     run edit_services ''hazla azul'' ''u1'' ''c1'' (Some first_design) = Inr result
     \<and> design_version (out_state result) = Some 2
     \<and> map version (get_or (design_history (out_state result)) []) = [1]
     \<and> current_image (out_state result) = Some (Some ''aW1hZ2VuMg=='')"
proof -
  let ?s1 = "edit_turn\<lparr>action := Some (Some ''edit''), needs_clarification := Some False,
                       questions := Some (Some [])\<rparr>"
  let ?produced = "no_update
            \<lparr>response_text := Some (edit_text 2),
             artifacts :=
               Some [\<lparr>art_type = ''image'',
                      title = design_title 2,
                      art_content = None,
                      image_data = Some ''aW1hZ2VuMg=='',
                      metadata = [(''version'', PyInt 2), (''edit'', PyBool True)]\<rparr>],
             current_image := Some (Some ''aW1hZ2VuMg==''),
             design_version := Some 2\<rparr>"
  let ?final = "apply_update (apply_update ?s1 ?produced)
                  (format_output (apply_update ?s1 ?produced))"
  have ans: "analyze_request edit_services = (\<lambda>user_message ctx. Inr edit_analysis)"
    by (simp add: edit_services_def fixed_services_def)
  have img: "get_none (current_image ?s1) = Some ''aW1hZ2VuMQ==''"
    by (simp add: get_none_def)
  have v: "get_or (design_version ?s1) 0 + 1 = 2"
    by (simp add: get_or_def)
  have ed: "edit_design edit_services ?s1 = Inr ?produced"
    unfolding edit_services_def
    by (subst edit_design_answer[OF img]) (simp_all only: v image_result.case list.case, simp)
  have inv: "invoke_graph edit_services edit_turn = Inr (''edit'', ?final)"
    by (simp only: edit_turn_request[OF ans] ed sum.case)
  have r: "run edit_services ''hazla azul'' ''u1'' ''c1'' (Some first_design) =
     Inr \<lparr>out_response_text = get_or (response_text ?final) [],
          out_artifacts = get_or (artifacts ?final) [],
          out_state =
            no_update
              \<lparr>linear_meters := Some (get_none (linear_meters ?final)),
               shape := Some (get_none (shape ?final)),
               style := Some (get_none (style ?final)),
               materials := Some (get_none (materials ?final)),
               colors := Some (get_none (colors ?final)),
               budget := Some (get_none (budget ?final)),
               current_image := Some (get_none (current_image ?final)),
               design_version := design_version ?final,
               design_history := design_history ?final,
               messages := messages ?final\<rparr>\<rparr>"
    by (simp only: run_edit_turn inv sum.case prod.case)
  have f: "design_version ?final = Some 2"
    "map version (get_or (design_history ?final) []) = [1]"
    "get_none (current_image ?final) = Some ''aW1hZ2VuMg==''"
    by (simp_all add: format_output_sel get_or_def get_none_def)
  show ?thesis
    unfolding r by (rule exI, rule conjI, rule refl) (simp add: f del: apply_update_sel)
qed


lemma final_sel:
  "design_version (apply_update (apply_update s p) (format_output (apply_update s p)))
     = put (design_version s) (design_version p)"
  "current_image (apply_update (apply_update s p) (format_output (apply_update s p)))
     = put (current_image s) (current_image p)"
  "design_history (apply_update (apply_update s p) (format_output (apply_update s p)))
     = put (design_history s) (design_history p)"
  "response_text (apply_update (apply_update s p) (format_output (apply_update s p)))
     = Some (get_or (put (response_text s) (response_text p)) [])"
  "artifacts (apply_update (apply_update s p) (format_output (apply_update s p)))
     = Some (get_or (put (artifacts s) (artifacts p)) [])"
  "action (apply_update (apply_update s p) (format_output (apply_update s p)))
     = put (action s) (action p)"
  by (simp_all add: format_output_sel)

lemma run_edit_turn_result:
  assumes "invoke_graph env edit_turn = Inr (branch, final)"
  shows "\<exists>result. run env ''hazla azul'' uid cid (Some first_design) = Inr result
     \<and> out_response_text result = get_or (response_text final) []
     \<and> out_artifacts result = get_or (artifacts final) []
     \<and> design_version (out_state result) = design_version final
     \<and> design_history (out_state result) = design_history final
     \<and> current_image (out_state result) = Some (get_none (current_image final))"
  by (simp add: run_edit_turn assms)

text \<open>
  C2 at a concrete turn. After a first design, when the edit call reports a failure the
  turn ends with the notice that the design is being regenerated, no artifact, the old
  image and version 1, whatever the generation service would have answered; when the edit
  call reports success with no image the same turn generates a new design: version 2, a
  new image, two artifacts.
\<close>

theorem failed_edit_does_not_regenerate:
  "\<exists>failed regenerated.
     (\<forall>generated.
        run (fixed_services edit_analysis generated (ImageFailure ''timeout''))
          ''hazla azul'' ''u1'' ''c1'' (Some first_design) = Inr failed)
     \<and> out_response_text failed = regenerating_text
     \<and> out_artifacts failed = []
     \<and> design_version (out_state failed) = Some 1
     \<and> current_image (out_state failed) = Some (Some ''aW1hZ2VuMQ=='')
     \<and> run (edit_fallback_services (ImageSuccess []))
           ''hazla azul'' ''u1'' ''c1'' (Some first_design) = Inr regenerated
     \<and> design_version (out_state regenerated) = Some 2
     \<and> current_image (out_state regenerated) = Some (Some ''aW1hZ2VuMg=='')
     \<and> length (out_artifacts regenerated) = 2"
proof -
  let ?s1 = "edit_turn\<lparr>action := Some (Some ''edit''), needs_clarification := Some False,
                       questions := Some (Some [])\<rparr>"
  have img: "get_none (current_image ?s1) = Some ''aW1hZ2VuMQ==''"
    by (simp add: get_none_def)
  let ?notice = "no_update\<lparr>response_text := Some regenerating_text,
                             artifacts := Some [],
                             action := Some (Some ''generate'')\<rparr>"
  let ?final = "apply_update (apply_update ?s1 ?notice)
                  (format_output (apply_update ?s1 ?notice))"
  let ?failed = "\<lparr>out_response_text = get_or (response_text ?final) [],
          out_artifacts = get_or (artifacts ?final) [],
          out_state =
            no_update
              \<lparr>linear_meters := Some (get_none (linear_meters ?final)),
               shape := Some (get_none (shape ?final)),
               style := Some (get_none (style ?final)),
               materials := Some (get_none (materials ?final)),
               colors := Some (get_none (colors ?final)),
               budget := Some (get_none (budget ?final)),
               current_image := Some (get_none (current_image ?final)),
               design_version := design_version ?final,
               design_history := design_history ?final,
               messages := messages ?final\<rparr>\<rparr>"
  have fail: "run (fixed_services edit_analysis generated (ImageFailure ''timeout''))
          ''hazla azul'' ''u1'' ''c1'' (Some first_design) = Inr ?failed" for generated
  proof -
    let ?env = "fixed_services edit_analysis generated (ImageFailure ''timeout'')"
    have ans: "analyze_request ?env = (\<lambda>user_message ctx. Inr edit_analysis)"
      by (simp add: fixed_services_def)
    have ed: "edit_design ?env ?s1 = Inr ?notice"
      by (subst edit_design_answer[OF img]) (simp_all only: image_result.case, simp)
    have inv: "invoke_graph ?env edit_turn = Inr (''edit'', ?final)"
      by (simp only: edit_turn_request[OF ans] ed sum.case)
    show ?thesis
      by (simp only: run_edit_turn inv sum.case prod.case)
  qed
  have failed_fields: "out_response_text ?failed = regenerating_text"
    "out_artifacts ?failed = []"
    "design_version (out_state ?failed) = Some 1"
    "current_image (out_state ?failed) = Some (Some ''aW1hZ2VuMQ=='')"
    by (simp_all add: final_sel get_or_def get_none_def del: apply_update_sel)
  let ?env = "edit_fallback_services (ImageSuccess [])"
  have ans: "analyze_request ?env = (\<lambda>user_message ctx. Inr edit_analysis)"
    by (simp add: edit_fallback_services_def fixed_services_def)
  have gk: "generate_kitchen_image ?env (get_or (linear_meters ?s1) (Some (FloatNum 3)))
             (get_or (shape ?s1) (Some ''L'')) (get_or (style ?s1) (Some ''modern''))
             (get_or (materials ?s1) (Some default_materials))
             (get_or (colors ?s1) (Some [''white'', ''gray'']))
           = Inr (ImageSuccess (''aW1hZ2VuMg=='' # []))"
    by (simp add: generate_kitchen_image_def edit_fallback_services_def fixed_services_def
          get_or_def truthy_seq_def tool_default_materials_def Let_def)
  obtain specs where sp: "generate_specs ?env (get_or (linear_meters ?s1) (Some (FloatNum 3)))
             (get_or (shape ?s1) (Some ''L'')) (get_or (style ?s1) (Some ''modern''))
             (get_or (materials ?s1) (Some default_materials)) = Inr specs"
    by (simp add: get_or_def generate_specs_3)
  have cs: "get_or (colors ?s1) (Some [''white'', ''gray'']) = Some []"
    by (simp add: get_or_def)
  note gen = generate_design_success[OF gk sp cs]
  have "edit_design ?env ?s1 = generate_design ?env ?s1"
    unfolding edit_fallback_services_def
    by (subst edit_design_answer[OF img]) (simp_all only: image_result.case list.case, simp)
  then have ed: "edit_design ?env ?s1 = Inr (no_update
         \<lparr>response_text :=
            Some (design_text (get_or (design_version ?s1) 0 + 1)
                    (str_opt (get_or (style ?s1) (Some ''modern'')))
                    (shape_display (get_or (shape ?s1) (Some ''L'')))
                    (case get_or (linear_meters ?s1) (Some (FloatNum 3)) of
                       None \<Rightarrow> ''None'' | Some x \<Rightarrow> num_str ?env x)
                    (get_or (get_or (materials ?s1) (Some default_materials)) []) []),
          artifacts :=
            Some [\<lparr>art_type = ''image'',
                   title = design_title (get_or (design_version ?s1) 0 + 1),
                   art_content = None,
                   image_data = Some ''aW1hZ2VuMg=='',
                   metadata =
                     [(''linear_meters'', opt_num (get_or (linear_meters ?s1) (Some (FloatNum 3)))),
                      (''shape'', opt_str (get_or (shape ?s1) (Some ''L''))),
                      (''style'', opt_str (get_or (style ?s1) (Some ''modern''))),
                      (''version'', PyInt (get_or (design_version ?s1) 0 + 1))]\<rparr>,
                  \<lparr>art_type = ''specs'',
                   title = ''Especificaciones T'' @ e_acute @ ''cnicas'',
                   art_content = Some specs,
                   image_data = None,
                   metadata = []\<rparr>],
          current_image := Some (Some ''aW1hZ2VuMg==''),
          design_version := Some (get_or (design_version ?s1) 0 + 1),
          design_history :=
            Some (get_or (design_history ?s1) []
                  @ [\<lparr>version = get_or (design_version ?s1) 0 + 1,
                      params =
                        \<lparr>p_linear_meters = get_or (linear_meters ?s1) (Some (FloatNum 3)),
                         p_shape = get_or (shape ?s1) (Some ''L''),
                         p_style = get_or (style ?s1) (Some ''modern''),
                         p_materials = get_or (materials ?s1) (Some default_materials)\<rparr>\<rparr>])\<rparr>)"
    (is "_ = Inr ?design")
    by (simp only: gen)
  have inv: "invoke_graph ?env edit_turn =
      Inr (''edit'', apply_update (apply_update ?s1 ?design)
                       (format_output (apply_update ?s1 ?design)))"
    by (simp only: edit_turn_request[OF ans] ed sum.case)
  from run_edit_turn_result[OF inv, of "''u1''" "''c1''"]
  obtain regenerated where
    "run ?env ''hazla azul'' ''u1'' ''c1'' (Some first_design) = Inr regenerated"
    "design_version (out_state regenerated) = Some 2"
    "current_image (out_state regenerated) = Some (Some ''aW1hZ2VuMg=='')"
    "length (out_artifacts regenerated) = 2"
    by (auto simp: final_sel get_or_def get_none_def simp del: apply_update_sel)
  with fail failed_fields show ?thesis
    by (intro exI[of _ ?failed] exI[of _ regenerated] conjI allI)
qed


lemma premium_state_sel [simp]:
  "linear_meters premium_state = Some (Some (FloatNum 3))" "shape premium_state = Some (Some ''L'')"
  "style premium_state = Some (Some ''modern'')" "materials premium_state = Some (Some [])"
  "colors premium_state = Some (Some [])" "budget premium_state = Some (Some ''premium'')"
  "design_version premium_state = Some 1"
  by (simp_all add: premium_state_def)

text \<open>
  C3 at a concrete state. With the budget tier \<^verbatim>\<open>premium\<close> in the state, the
  specification that the generation emits ends with the cost section of the band of
  \<^verbatim>\<open>medium\<close>, not of \<^verbatim>\<open>premium\<close>.
\<close>

theorem premium_budget_reports_medium_band:
  "budget premium_state = Some (Some ''premium'')
   \<and> map_of cost_ranges ''premium'' = Some ''$80,000 - $150,000+ MXN''
   \<and> (\<exists>produced image_artifact head.
        generate_design image_services premium_state = Inr produced
        \<and> artifacts produced =
            Some [image_artifact,
                  \<lparr>art_type = ''specs'',
                   title = ''Especificaciones T'' @ e_acute @ ''cnicas'',
                   art_content =
                     Some (join nl (head @ cost_estimate_section ''$25,000 - $45,000 MXN''
                                    @ [[], specs_note])),
                   image_data = None,
                   metadata = []\<rparr>])"
proof -
  have gk: "generate_kitchen_image image_services (get_or (linear_meters premium_state) (Some (FloatNum 3)))
             (get_or (shape premium_state) (Some ''L''))
             (get_or (style premium_state) (Some ''modern''))
             (get_or (materials premium_state) (Some default_materials))
             (get_or (colors premium_state) (Some [''white'', ''gray'']))
           = Inr (ImageSuccess (''aW1hZ2VuMg=='' # []))"
    by (simp add: generate_kitchen_image_def image_services_def fixed_services_def
          get_or_def truthy_seq_def tool_default_materials_def Let_def)
  obtain specs where sp: "generate_specs image_services
             (get_or (linear_meters premium_state) (Some (FloatNum 3)))
             (get_or (shape premium_state) (Some ''L''))
             (get_or (style premium_state) (Some ''modern''))
             (get_or (materials premium_state) (Some default_materials)) = Inr specs"
    by (simp add: get_or_def generate_specs_3)
  from generate_specs_cost_band[OF sp] obtain head where
    head: "specs = join nl (head @ cost_estimate_section ''$25,000 - $45,000 MXN''
                            @ [[], specs_note])"
    by (elim exE)
  have cs: "get_or (colors premium_state) (Some [''white'', ''gray'']) = Some []"
    by (simp add: get_or_def)
  have "\<exists>produced image_artifact.
        generate_design image_services premium_state = Inr produced
        \<and> artifacts produced =
            Some [image_artifact,
                  \<lparr>art_type = ''specs'',
                   title = ''Especificaciones T'' @ e_acute @ ''cnicas'',
                   art_content = Some specs,
                   image_data = None,
                   metadata = []\<rparr>]"
    unfolding generate_design_success[OF gk sp cs] by simp
  then have "\<exists>produced image_artifact head.
        generate_design image_services premium_state = Inr produced
        \<and> artifacts produced =
            Some [image_artifact,
                  \<lparr>art_type = ''specs'',
                   title = ''Especificaciones T'' @ e_acute @ ''cnicas'',
                   art_content =
                     Some (join nl (head @ cost_estimate_section ''$25,000 - $45,000 MXN''
                                    @ [[], specs_note])),
                   image_data = None,
                   metadata = []\<rparr>]"
    unfolding head by blast
  moreover have "map_of cost_ranges ''premium'' = Some ''$80,000 - $150,000+ MXN''"
    by (simp add: cost_ranges_def)
  moreover have "budget premium_state = Some (Some ''premium'')"
    by simp
  ultimately show ?thesis by (intro conjI)
qed

text \<open>
  C10 at a concrete turn. On the fresh state that \<^verbatim>\<open>run\<close> builds, where the size is
  present with the value \<^verbatim>\<open>None\<close>, an edit request delegates to the generation, which
  takes \<^verbatim>\<open>None\<close> and not 3.0 as the size, and the turn ends with \<^verbatim>\<open>TypeError\<close> once
  the image has come back.
\<close>

theorem edit_without_size_raises:
  "linear_meters fresh_edit_turn = Some None
   \<and> current_image fresh_edit_turn = Some None
   \<and> run (edit_fallback_services (ImageFailure ''offline'')) ''hazla azul'' ''u1'' ''c1'' None
       = Inl TypeError"
proof -
  let ?env = "edit_fallback_services (ImageFailure ''offline'')"
  let ?s1 = "fresh_edit_turn\<lparr>action := Some (Some ''edit''), needs_clarification := Some False,
                             questions := Some (Some [])\<rparr>"
  have size: "linear_meters fresh_edit_turn = Some None"
    and image: "current_image fresh_edit_turn = Some None"
    by (simp_all add: fresh_edit_turn_def initial_state_def)
  have msgs: "get_or (messages fresh_edit_turn) [] \<noteq> []"
    by (simp add: fresh_edit_turn_def get_or_def)
  have ans: "analyze_request ?env = (\<lambda>user_message ctx. Inr edit_analysis)"
    by (simp add: edit_fallback_services_def fixed_services_def)
  have none: "get_none (current_image ?s1) = None"
    by (simp add: image get_none_def)
  have gk: "generate_kitchen_image ?env None
             (get_or (shape ?s1) (Some ''L'')) (get_or (style ?s1) (Some ''modern''))
             (get_or (materials ?s1) (Some default_materials))
             (get_or (colors ?s1) (Some [''white'', ''gray'']))
           = Inr (ImageSuccess (''aW1hZ2VuMg=='' # []))"
    by (simp add: generate_kitchen_image_def edit_fallback_services_def fixed_services_def
          fresh_edit_turn_def initial_state_def get_or_def truthy_seq_def
          tool_default_materials_def Let_def)
  have "linear_meters ?s1 = Some None"
    by (simp add: size)
  from generate_design_no_size[OF gk this]
  have ed: "edit_design ?env ?s1 = Inl TypeError"
    by (simp only: edit_design_without_image[OF none])
  have inv: "invoke_graph ?env fresh_edit_turn = Inl TypeError"
    by (simp only: turn_with_edit_request[OF msgs ans] ed sum.case)
  have "run ?env ''hazla azul'' ''u1'' ''c1'' None = Inl TypeError"
    unfolding run_fresh fresh_edit_turn_def[symmetric] inv by simp
  with size image show ?thesis by (intro conjI)
qed

text \<open>The default of 3.0 applies when the state has no size key at all.\<close>

lemma default_size_for_missing_key:
  "\<exists>produced.
     generate_design image_services no_update = Inr produced
     \<and> map (\<lambda>a. map_of (metadata a) ''linear_meters'') (get_or (artifacts produced) [])
         = [Some (PyFloat 3), None]
     \<and> design_version produced = Some 1"
proof -
  have gk: "generate_kitchen_image image_services (get_or (linear_meters no_update) (Some (FloatNum 3)))
             (get_or (shape no_update) (Some ''L''))
             (get_or (style no_update) (Some ''modern''))
             (get_or (materials no_update) (Some default_materials))
             (get_or (colors no_update) (Some [''white'', ''gray'']))
           = Inr (ImageSuccess (''aW1hZ2VuMg=='' # []))"
    by (simp add: generate_kitchen_image_def image_services_def fixed_services_def
          get_or_def truthy_seq_def default_materials_def Let_def)
  obtain specs where sp: "generate_specs image_services
             (get_or (linear_meters no_update) (Some (FloatNum 3)))
             (get_or (shape no_update) (Some ''L''))
             (get_or (style no_update) (Some ''modern''))
             (get_or (materials no_update) (Some default_materials)) = Inr specs"
    by (simp add: get_or_def generate_specs_3)
  have cs: "get_or (colors no_update) (Some [''white'', ''gray'']) = Some [''white'', ''gray'']"
    by (simp add: get_or_def)
  show ?thesis
    unfolding generate_design_success[OF gk sp cs]
    by (simp add: get_or_def opt_num_def)
qed

end
